theory Spec2Isabelle
  imports Main
begin

section \<open>JavaScript string primitives\<close>

text \<open>
  Strings of the program are modelled as HOL strings: a list of code units, each below 256.
  The primitives below follow the ECMAScript methods the sources call.
\<close>

definition startsWith :: "string \<Rightarrow> string \<Rightarrow> bool" where
  "startsWith s p = (take (length p) s = p)"

fun str_includes :: "string \<Rightarrow> string \<Rightarrow> bool" where
  "str_includes [] sub = (sub = [])"
| "str_includes (c # cs) sub = (startsWith (c # cs) sub \<or> str_includes cs sub)"

text \<open>White space and line terminators of ECMAScript that fit in one byte.\<close>

definition space_chars :: string where
  "space_chars = [CHR 0x09, CHR 0x0A, CHR 0x0B, CHR 0x0C, CHR 0x0D, CHR 0x20, CHR 0xA0]"

definition is_space :: "char \<Rightarrow> bool" where
  "is_space c = (c \<in> set space_chars)"

definition trim :: "string \<Rightarrow> string" where
  "trim s = rev (dropWhile is_space (rev (dropWhile is_space s)))"

text \<open>\<open>s.split(d)\<close> for a one-character separator: never the empty list.\<close>

fun split :: "char \<Rightarrow> string \<Rightarrow> string list" where
  "split d [] = [[]]"
| "split d (c # cs) =
     (if c = d then [] # split d cs
      else (case split d cs of [] \<Rightarrow> [[c]] | x # xs \<Rightarrow> (c # x) # xs))"

text \<open>\<open>s.replace(/c/g, r)\<close> for a one-character pattern.\<close>

definition replace_char :: "char \<Rightarrow> string \<Rightarrow> string \<Rightarrow> string" where
  "replace_char c r s = concat (map (\<lambda>x. if x = c then r else [x]) s)"

text \<open>Decimal rendering of a number, as string interpolation does.\<close>

function show_digits :: "int \<Rightarrow> string" where
  "show_digits n =
     (if n < 10 then [''0123456789'' ! nat n]
      else show_digits (n div 10) @ [''0123456789'' ! nat (n mod 10)])"
  by pat_completeness auto
termination
  by (relation "measure nat") auto

declare show_digits.simps [simp del]

definition show_int :: "int \<Rightarrow> string" where
  "show_int i = (if i < 0 then CHR ''-'' # show_digits (- i) else show_digits i)"

section \<open>Host-side state of the Message Router\<close>

text \<open>
  The listener finds the two containers of a context with
  \<open>document.querySelector('.ember-loading-container[data-frame-id="..."]')\<close> and
  \<open>document.querySelector('.ember-container[data-frame-id="..."]')\<close>: the first element in
  document order that carries the frame id. The containers are therefore kept as association
  lists in document order, duplicates allowed.
\<close>

record loading_container =
  innerHTML :: string
  style_color :: string
  style_display :: string

record ember_container =
  final_display :: string
  final_height :: "int option"

record host =
  loadingContainers :: "(string \<times> loading_container) list"
  emberContainers :: "(string \<times> ember_container) list"
  emberMaxHeights :: "string \<rightharpoonup> int"
  processedCode :: "string \<rightharpoonup> string"

text \<open>
  \<open>processedCode h m\<close> is the text of the element found by
  \<open>.mes[mesid="m"] pre[data-ember-processed="true"] > code\<close>, if there is one.
\<close>

fun querySelector :: "(string \<times> 'a) list \<Rightarrow> string \<Rightarrow> 'a option" where
  "querySelector [] f = None"
| "querySelector ((k, v) # es) f = (if k = f then Some v else querySelector es f)"

text \<open>Writing through the element that \<open>querySelector\<close> returned.\<close>

fun modify_first :: "string \<Rightarrow> ('a \<Rightarrow> 'a) \<Rightarrow> (string \<times> 'a) list \<Rightarrow> (string \<times> 'a) list" where
  "modify_first f g [] = []"
| "modify_first f g ((k, v) # es) =
     (if k = f then (k, g v) # es else (k, v) # modify_first f g es)"

text \<open>
  The \<open>injection\<close> object of an \<open>ember-inject-js\<close> message. The listener checks the type of
  \<open>content\<close> only; \<open>inj_depth\<close> is the text that the template literal gives for the value of
  \<open>depth\<close>, whatever that value is.
\<close>

record injection =
  inj_id :: string
  inj_depth :: string
  inj_content :: string
  inj_ephemeral :: bool

record event_data =
  msg_type :: string
  frameId :: string
  message :: string
  height :: int
  injection_data :: "injection option"

datatype action =
  AttemptSelfHeal string string string
| ExecuteCommand string

definition maxAllowedHeight :: int where
  "maxAllowedHeight = 600"

definition error_html :: "string \<Rightarrow> string" where
  \<open>error_html m =
     ''<i class="fa-solid fa-triangle-exclamation"></i> <span><b>Ember JS Error:</b> ''
       @ hd (split CHR ''\<newline>'' m) @ ''</span>''\<close>

text \<open>\<open>frameId.split('-')[2]\<close>; a missing part is \<open>undefined\<close>, printed so in the selector.\<close>

definition msgIdErr :: "string \<Rightarrow> string" where
  "msgIdErr f = (let parts = split CHR ''-'' f in
     if 2 < length parts then parts ! 2 else ''undefined'')"

definition on_error :: "host \<Rightarrow> event_data \<Rightarrow> host \<times> action list" where
  "on_error h e =
     (case querySelector (loadingContainers h) (frameId e) of
        None \<Rightarrow> (h, [])
      | Some _ \<Rightarrow>
          (let h1 = h\<lparr>loadingContainers :=
                 modify_first (frameId e)
                   (\<lambda>l. l\<lparr>innerHTML := error_html (message e),
                           style_color := ''var(--text-color-error)'',
                           style_display := ''flex''\<rparr>)
                   (loadingContainers h)\<rparr>;
               h2 = h1\<lparr>emberContainers :=
                 modify_first (frameId e) (\<lambda>c. c\<lparr>final_display := ''none''\<rparr>)
                   (emberContainers h1)\<rparr>
           in (case processedCode h2 (msgIdErr (frameId e)) of
                 Some code \<Rightarrow>
                   if startsWith (message e) ''Ember Execution Error:''
                   then (h2, [AttemptSelfHeal (msgIdErr (frameId e)) code (message e)])
                   else (h2, [])
               | None \<Rightarrow> (h2, []))))"

definition on_success :: "host \<Rightarrow> event_data \<Rightarrow> host \<times> action list" where
  "on_success h e =
     (let h1 = h\<lparr>loadingContainers :=
            modify_first (frameId e) (\<lambda>l. l\<lparr>style_display := ''none''\<rparr>) (loadingContainers h)\<rparr>;
          h2 = h1\<lparr>emberContainers :=
            modify_first (frameId e) (\<lambda>c. c\<lparr>final_display := ''block''\<rparr>) (emberContainers h1)\<rparr>
      in (h2, []))"

definition inject_command :: "injection \<Rightarrow> string" where
  \<open>inject_command i =
     ''/inject id="'' @ replace_char (CHR ''"'') [CHR 0x5C, CHR ''"''] (inj_id i)
       @ ''" depth='' @ inj_depth i
       @ '' content="'' @ replace_char (CHR ''"'') [CHR 0x5C, CHR ''"''] (inj_content i) @ ''"''
       @ (if inj_ephemeral i then '' ephemeral=true'' else [])\<close>

definition on_inject :: "host \<Rightarrow> event_data \<Rightarrow> host \<times> action list" where
  "on_inject h e =
     (case injection_data e of
        None \<Rightarrow> (h, [])
      | Some i \<Rightarrow> (h, [ExecuteCommand (inject_command i)]))"

text \<open>
  \<open>emberMaxHeights\<close> is a plain object: the map holds its own properties. For a key that it
  does not own but inherits from \<open>Object.prototype\<close>, \<open>emberMaxHeights[frameId] || 0\<close> is the
  inherited function or object, and \<open>newHeight > currentMax\<close> compares with \<open>NaN\<close>: it is false,
  and the report changes nothing. The heights are the integers that the bootstrap reports,
  \<open>Math.ceil(document.documentElement.scrollHeight)\<close> when it is positive.
\<close>

definition object_prototype_keys :: "string list" where
  "object_prototype_keys =
     [''constructor'', ''__proto__'', ''hasOwnProperty'', ''isPrototypeOf'',
      ''propertyIsEnumerable'', ''toLocaleString'', ''toString'', ''valueOf'',
      ''__defineGetter__'', ''__defineSetter__'', ''__lookupGetter__'', ''__lookupSetter__'']"

definition inherited_only :: "host \<Rightarrow> string \<Rightarrow> bool" where
  "inherited_only h f = (emberMaxHeights h f = None \<and> f \<in> set object_prototype_keys)"

text \<open>The \<open>ember-resize\<close> case of the listener that caps the height (the 600 pixel ceiling).\<close>

definition on_resize :: "host \<Rightarrow> event_data \<Rightarrow> host \<times> action list" where
  "on_resize h e =
     (case querySelector (emberContainers h) (frameId e) of
        None \<Rightarrow> (h, [])
      | Some _ \<Rightarrow>
          if height e \<le> 0 \<or> inherited_only h (frameId e) then (h, [])
          else
            (let currentMax = (case emberMaxHeights h (frameId e) of None \<Rightarrow> 0 | Some m \<Rightarrow> m);
                 newHeight = height e + 15;
                 newHeight = (if newHeight > maxAllowedHeight then maxAllowedHeight else newHeight)
             in if newHeight > currentMax
                then (h\<lparr>emberMaxHeights := (emberMaxHeights h)(frameId e \<mapsto> newHeight),
                        emberContainers :=
                          modify_first (frameId e) (\<lambda>c. c\<lparr>final_height := Some newHeight\<rparr>)
                            (emberContainers h)\<rparr>, [])
                else (h, [])))"

text \<open>The \<open>ember-resize\<close> case of the listener in main.js: the same, without the cap.\<close>

definition on_resize_main :: "host \<Rightarrow> event_data \<Rightarrow> host \<times> action list" where
  "on_resize_main h e =
     (case querySelector (emberContainers h) (frameId e) of
        None \<Rightarrow> (h, [])
      | Some _ \<Rightarrow>
          if height e \<le> 0 \<or> inherited_only h (frameId e) then (h, [])
          else
            (let currentMax = (case emberMaxHeights h (frameId e) of None \<Rightarrow> 0 | Some m \<Rightarrow> m);
                 newHeight = height e + 15
             in if newHeight > currentMax
                then (h\<lparr>emberMaxHeights := (emberMaxHeights h)(frameId e \<mapsto> newHeight),
                        emberContainers :=
                          modify_first (frameId e) (\<lambda>c. c\<lparr>final_height := Some newHeight\<rparr>)
                            (emberContainers h)\<rparr>, [])
                else (h, [])))"

text \<open>
  The \<open>window\<close> message listener: messages whose type does not start with \<open>ember-\<close> are
  ignored, the others are dispatched on their type.
\<close>

definition messageListener :: "host \<Rightarrow> event_data \<Rightarrow> host \<times> action list" where
  "messageListener h e =
     (if \<not> startsWith (msg_type e) ''ember-'' then (h, [])
      else if msg_type e = ''ember-error'' then on_error h e
      else if msg_type e = ''ember-success'' then on_success h e
      else if msg_type e = ''ember-resize'' then on_resize h e
      else if msg_type e = ''ember-inject-js'' then on_inject h e
      else (h, []))"

definition messageListener_main :: "host \<Rightarrow> event_data \<Rightarrow> host \<times> action list" where
  "messageListener_main h e =
     (if \<not> startsWith (msg_type e) ''ember-'' then (h, [])
      else if msg_type e = ''ember-error'' then on_error h e
      else if msg_type e = ''ember-success'' then on_success h e
      else if msg_type e = ''ember-resize'' then on_resize_main h e
      else if msg_type e = ''ember-inject-js'' then on_inject h e
      else (h, []))"


text \<open>The height shown for a context: \<open>style.height\<close> of its container, 0 while unset.\<close>

definition shown_height :: "string \<Rightarrow> host \<Rightarrow> int" where
  "shown_height f h =
     (case querySelector (emberContainers h) f of
        None \<Rightarrow> 0
      | Some c \<Rightarrow> (case final_height c of None \<Rightarrow> 0 | Some x \<Rightarrow> x))"

text \<open>The maximum recorded for a context: \<open>emberMaxHeights[frameId] || 0\<close>.\<close>

definition recorded_max :: "string \<Rightarrow> host \<Rightarrow> int" where
  "recorded_max f h = (case emberMaxHeights h f of None \<Rightarrow> 0 | Some m \<Rightarrow> m)"


text \<open>
  What the host looks like right after the Message Processor has set a context up: a loading
  container with the spinner, a hidden output container with no height yet, nothing recorded.
\<close>

definition spinner_html :: string where
  \<open>spinner_html = ''<i class="fa-solid fa-spinner fa-spin"></i> <span>Ember JS preparing...</span>''\<close>

definition fresh_host :: "string \<Rightarrow> host" where
  "fresh_host f =
     \<lparr>loadingContainers = [(f, \<lparr>innerHTML = spinner_html, style_color = [], style_display = []\<rparr>)],
      emberContainers = [(f, \<lparr>final_display = ''none'', final_height = None\<rparr>)],
      emberMaxHeights = Map.empty,
      processedCode = Map.empty\<rparr>"


definition success_report :: "string \<Rightarrow> event_data" where
  "success_report f =
     \<lparr>msg_type = ''ember-success'', frameId = f, message = [], height = 0, injection_data = None\<rparr>"

definition error_report :: "string \<Rightarrow> string \<Rightarrow> event_data" where
  "error_report f m =
     \<lparr>msg_type = ''ember-error'', frameId = f, message = m, height = 0, injection_data = None\<rparr>"

text \<open>What a context shows: the display of its loading indicator and of its output container.\<close>

definition visible :: "string \<Rightarrow> host \<Rightarrow> string option \<times> string option" where
  "visible f h =
     (map_option style_display (querySelector (loadingContainers h) f),
      map_option final_display (querySelector (emberContainers h) f))"

section \<open>Regular expressions of the host language\<close>

text \<open>
  The sources test and search text with ECMAScript regular expressions. The fragment they use
  is modelled here: character classes, the assertions \<open>^\<close>, \<open>$\<close> (\<open>BOLm\<close> and \<open>EOLm\<close> are the
  two under the flag \<open>m\<close>, which hold at the line breaks too) and \<open>\b\<close>, sequence,
  alternation, the greedy and lazy quantifiers \<open>*\<close>, \<open>+\<close> and \<open>?\<close>, and capturing groups.
  Matching is the backtracking search of the language: the results of a pattern at a position
  are listed in the order in which the search tries them, so the head of the list is the match
  the engine reports.
\<close>

datatype regex =
  Cls bool string
| BOL
| EOL
| BOLm
| EOLm
| WordB
| Eps
| Seq regex regex
| Alt regex regex
| Star bool regex
| Opt bool regex
| Group nat regex

text \<open>
  \<open>Cls neg cs\<close> is the class of the characters \<open>cs\<close> (ranges written out), negated when
  \<open>neg\<close>; the flag of \<open>Star\<close> and \<open>Opt\<close> is True for the greedy quantifier. A match state is the text before the position
  (reversed), the text from the position on, and the captures made so far.
\<close>

type_synonym mstate = "string \<times> string \<times> (nat \<times> string) list"

definition letters :: string where
  "letters = ''abcdefghijklmnopqrstuvwxyzABCDEFGHIJKLMNOPQRSTUVWXYZ''"

definition word_chars :: string where
  "word_chars = letters @ ''0123456789_''"

definition line_terminators :: string where
  "line_terminators = [CHR 0x0A, CHR 0x0D]"

definition is_word_at :: "string \<Rightarrow> bool" where
  "is_word_at s = (case s of [] \<Rightarrow> False | c # _ \<Rightarrow> c \<in> set word_chars)"

definition set_capture :: "nat \<Rightarrow> string \<Rightarrow> (nat \<times> string) list \<Rightarrow> (nat \<times> string) list" where
  "set_capture n v caps = (n, v) # filter (\<lambda>p. fst p \<noteq> n) caps"

fun rmatch :: "regex \<Rightarrow> mstate \<Rightarrow> mstate list" where
  "rmatch (Cls neg members) (prev, rest, caps) =
     (case rest of
        [] \<Rightarrow> []
      | c # cs \<Rightarrow> if (c \<in> set members) \<noteq> neg then [(c # prev, cs, caps)] else [])"
| "rmatch BOL (prev, rest, caps) = (if prev = [] then [(prev, rest, caps)] else [])"
| "rmatch EOL (prev, rest, caps) = (if rest = [] then [(prev, rest, caps)] else [])"
| "rmatch BOLm (prev, rest, caps) =
     (if prev = [] \<or> hd prev \<in> set line_terminators then [(prev, rest, caps)] else [])"
| "rmatch EOLm (prev, rest, caps) =
     (if rest = [] \<or> hd rest \<in> set line_terminators then [(prev, rest, caps)] else [])"
| "rmatch WordB (prev, rest, caps) =
     (if is_word_at prev \<noteq> is_word_at rest then [(prev, rest, caps)] else [])"
| "rmatch Eps st = [st]"
| "rmatch (Seq r1 r2) st = concat (map (rmatch r2) (rmatch r1 st))"
| "rmatch (Alt r1 r2) st = rmatch r1 st @ rmatch r2 st"
| "rmatch (Star greedy r) (prev, rest, caps) =
     (let more = concat (map (\<lambda>st'. if length (fst (snd st')) < length rest
                                      then rmatch (Star greedy r) st' else [])
                            (rmatch r (prev, rest, caps)))
      in if greedy then more @ [(prev, rest, caps)] else (prev, rest, caps) # more)"
| "rmatch (Opt greedy r) st = (if greedy then rmatch r st @ [st] else st # rmatch r st)"
| "rmatch (Group n r) (prev, rest, caps) =
     map (\<lambda>(b', rest', caps').
            (b', rest', set_capture n (take (length rest - length rest') rest) caps'))
       (rmatch r (prev, rest, caps))"

text \<open>
  The result of \<open>regex_exec\<close>: the index of the match, the matched text and the captures. The search
  tries every start position from the left and reports the first match it finds.
\<close>

record match_result =
  match_index :: nat
  matched :: string
  captures :: "(nat \<times> string) list"

definition match_result_of :: "string \<Rightarrow> string \<Rightarrow> mstate \<Rightarrow> match_result" where
  "match_result_of prev rest st =
     \<lparr>match_index = length prev,
      matched = take (length rest - length (fst (snd st))) rest,
      captures = snd (snd st)\<rparr>"

fun exec_from :: "regex \<Rightarrow> string \<Rightarrow> string \<Rightarrow> match_result option" where
  "exec_from r prev [] =
     (case rmatch r (prev, [], []) of
        st # _ \<Rightarrow> Some (match_result_of prev [] st)
      | [] \<Rightarrow> None)"
| "exec_from r prev (c # cs) =
     (case rmatch r (prev, c # cs, []) of
        st # _ \<Rightarrow> Some (match_result_of prev (c # cs) st)
      | [] \<Rightarrow> exec_from r (c # prev) cs)"

definition regex_exec :: "regex \<Rightarrow> string \<Rightarrow> match_result option" where
  "regex_exec r s = exec_from r [] s"

definition regex_test :: "regex \<Rightarrow> string \<Rightarrow> bool" where
  "regex_test r s = (regex_exec r s \<noteq> None)"

text \<open>\<open>m[n]\<close> of a match: the text of group \<open>n\<close>, \<open>undefined\<close> when the group took no part.\<close>

definition match_group :: "match_result \<Rightarrow> nat \<Rightarrow> string option" where
  "match_group m n = map_of (captures m) n"

text \<open>Patterns written out: a literal text, one character, and the escapes of the sources.\<close>

definition re_chr :: "char \<Rightarrow> regex" where
  "re_chr c = Cls False [c]"

definition re_lit :: "string \<Rightarrow> regex" where
  "re_lit s = foldr (\<lambda>c r. Seq (re_chr c) r) s Eps"

definition re_seq :: "regex list \<Rightarrow> regex" where
  "re_seq rs = foldr Seq rs Eps"

definition re_alt :: "regex list \<Rightarrow> regex" where
  "re_alt rs = (case rs of [] \<Rightarrow> Eps | _ \<Rightarrow> foldr Alt (butlast rs) (last rs))"

definition re_plus :: "regex \<Rightarrow> regex" where
  "re_plus r = Seq r (Star True r)"

definition re_any :: regex where
  "re_any = Cls True []"

definition re_dot :: regex where
  "re_dot = Cls True [CHR 0x0A, CHR 0x0D]"

definition re_space :: regex where
  "re_space = Cls False space_chars"

text \<open>The flag \<open>i\<close>: a letter of the pattern stands for both of its cases.\<close>

definition other_case :: "char \<Rightarrow> char" where
  "other_case c =
     (case map_of (zip letters (drop 26 letters @ take 26 letters)) c of
        Some d \<Rightarrow> d
      | None \<Rightarrow> c)"

definition re_lit_ci :: "string \<Rightarrow> regex" where
  "re_lit_ci s = foldr (\<lambda>c r. Seq (Cls False [c, other_case c]) r) s Eps"

definition re_word :: regex where
  "re_word = Cls False word_chars"

text \<open>
  The flag \<open>g\<close>: the text cut into the pieces that the successive matches leave. After a match
  the search goes on where the match ended; after an empty match it moves one character on.
  \<open>skip\<close> counts the characters of the current match that are still to be passed.
\<close>

datatype piece = Unmatched string | Matched string

fun pieces :: "regex \<Rightarrow> string \<Rightarrow> string \<Rightarrow> nat \<Rightarrow> piece list" where
  "pieces r prev [] skip =
     (if 0 < skip then []
      else (case rmatch r (prev, [], []) of [] \<Rightarrow> [] | st # _ \<Rightarrow> [Matched []]))"
| "pieces r prev (c # cs) skip =
     (if 0 < skip then pieces r (c # prev) cs (skip - 1)
      else (case rmatch r (prev, c # cs, []) of
              [] \<Rightarrow> Unmatched [c] # pieces r (c # prev) cs 0
            | st # _ \<Rightarrow>
                (let k = length (c # cs) - length (fst (snd st)) in
                 if k = 0 then Matched [] # Unmatched [c] # pieces r (c # prev) cs 0
                 else Matched (take k (c # cs)) # pieces r (c # prev) cs (k - 1))))"

text \<open>\<open>s.match(r)\<close> with the flag \<open>g\<close>: the matched texts; \<open>s.replace(r, t)\<close> with the flag \<open>g\<close>.\<close>

definition match_all :: "regex \<Rightarrow> string \<Rightarrow> string list" where
  "match_all r s = concat (map (\<lambda>p. case p of Matched m \<Rightarrow> [m] | Unmatched _ \<Rightarrow> []) (pieces r [] s 0))"

definition replace_all :: "regex \<Rightarrow> string \<Rightarrow> string \<Rightarrow> string" where
  "replace_all r t s = concat (map (\<lambda>p. case p of Matched _ \<Rightarrow> t | Unmatched u \<Rightarrow> u) (pieces r [] s 0))"

fun join :: "string \<Rightarrow> string list \<Rightarrow> string" where
  "join sep [] = []"
| "join sep [x] = x"
| "join sep (x # y # ys) = x @ sep @ join sep (y # ys)"

section \<open>Dedup Ledger: the fingerprint of a code unit\<close>

text \<open>
  \<open>simpleHash\<close>: \<open>hash = ((hash << 5) - hash) + char; hash = hash & hash\<close> over the code units,
  then \<open>Math.abs\<close>. The shift and the \<open>&\<close> work on 32-bit signed integers.
\<close>

definition to_int32 :: "int \<Rightarrow> int" where
  "to_int32 x = (x + 2147483648) mod 4294967296 - 2147483648"

definition simpleHash :: "string \<Rightarrow> int" where
  "simpleHash str =
     \<bar>foldl (\<lambda>hash c. to_int32 (to_int32 (hash * 32) - hash + int (of_char c))) 0 str\<bar>"

text \<open>\<open>simpleHash(code).toString().substring(0, 10)\<close>, the key kept in the ledger.\<close>

definition hash_key :: "string \<Rightarrow> string" where
  "hash_key code = take 10 (show_int (simpleHash code))"

section \<open>Content Classifier\<close>

text \<open>The regular expressions of \<open>detectJavaScriptContent\<close>, in the order of the source.\<close>

definition scriptTags_re :: regex where
  \<open>scriptTags_re =
     re_seq [re_lit_ci ''<script'', WordB, Star True (Cls True ''>''),
       re_chr CHR ''>'', Star False re_any, re_lit_ci ''</script>'']\<close>

definition quote_chars :: string where
  \<open>quote_chars = [CHR 0x27, CHR ''"'']\<close>

definition es6Imports_re :: regex where
  \<open>es6Imports_re =
     re_seq [WordB, re_lit ''import'', re_plus re_space, Star True re_dot, re_plus re_space,
       re_lit ''from'', re_plus re_space, Cls False quote_chars,
       re_plus (Cls True quote_chars), Cls False quote_chars]\<close>

definition jsInHTML_re :: regex where
  \<open>jsInHTML_re =
     re_seq [WordB,
       Group 1 (re_alt (map re_lit [''const'', ''let'', ''var'', ''function'', ''=>|'',
         ''addEventListener'', ''document.''])),
       WordB]\<close>

definition jsKeywords_re :: regex where
  \<open>jsKeywords_re =
     re_seq [WordB,
       Group 1 (re_alt (map re_lit [''const'', ''let'', ''var'', ''function'', ''class'', ''if'',
         ''else'', ''for'', ''while'', ''return'', ''new'', ''this'', ''try'', ''catch'',
         ''finally'', ''async'', ''await'', ''export'', ''import''])),
       WordB]\<close>

definition domManipulation_re :: regex where
  \<open>domManipulation_re =
     re_seq [WordB,
       Group 1 (re_alt (map re_lit [''document.'', ''window.'', ''.getElementById'',
         ''.querySelector'', ''.createElement'', ''.appendChild'', ''.addEventListener''])),
       WordB]\<close>

definition jsMethods_re :: regex where
  \<open>jsMethods_re =
     re_seq [WordB,
       Group 1 (re_alt (map re_lit [''.push'', ''.pop'', ''.map'', ''.filter'', ''.forEach'',
         ''.reduce'', ''.find'', ''.some'', ''.every'', ''console.log'', ''JSON.'', ''Math.''])),
       WordB]\<close>

definition arrowFunctions_re :: regex where
  \<open>arrowFunctions_re =
     re_seq [re_lit ''=>'', Star True re_space,
       Cls False ''{('']\<close>

definition jsOperators_re :: regex where
  \<open>jsOperators_re =
     re_alt [re_seq [Cls False ''=!'', re_lit ''==''],
       re_lit ''&&'', re_lit ''||'', re_lit ''...'', re_lit ''??'', re_lit ''?.'']\<close>

definition regexLiterals_re :: regex where
  \<open>regexLiterals_re =
     re_seq [re_chr CHR ''/'',
       re_plus (Cls True [CHR ''/'', CHR 0x0A]),
       re_chr CHR ''/'',
       Star True (Cls False ''gimuy'')]\<close>

definition templateLiterals_re :: regex where
  \<open>templateLiterals_re =
     re_seq [re_chr CHR 0x60, Star True (Cls True [CHR 0x60]), re_lit ''${'',
       Star True (Cls True ''}''), re_chr CHR ''}'',
       Star True (Cls True [CHR 0x60]), re_chr CHR 0x60]\<close>

definition startsWithTag_re :: regex where
  \<open>startsWithTag_re =
     re_seq [BOL, Star True re_space, re_chr CHR ''<'',
       Cls False letters]\<close>

definition startsWithCssRule_re :: regex where
  \<open>startsWithCssRule_re =
     re_seq [BOL, Star True re_space,
       Cls False (letters @ ''#.''),
       Star True (Cls True ''{''), re_chr CHR ''{'']\<close>

text \<open>The seven content signals, in the order in which the source lists them for the score.\<close>

definition content_signals :: "regex list" where
  "content_signals = [jsKeywords_re, domManipulation_re, jsMethods_re, arrowFunctions_re,
     jsOperators_re, regexLiterals_re, templateLiterals_re]"

record detection =
  isJavaScript :: bool
  isDirectJavaScript :: bool
  isHtmlWithJavaScript :: bool
  isContentBasedJavaScript :: bool
  hasScriptTags :: bool
  contentBasedScore :: nat

definition detectJavaScriptContent :: "string \<Rightarrow> string \<Rightarrow> detection" where
  "detectJavaScriptContent className codeContent =
     (let isDirect = (str_includes className ''javascript'' \<or> str_includes className ''lang-js''
                       \<or> str_includes className ''js'');
          hasTags = regex_test scriptTags_re codeContent;
          hasES6Imports = regex_test es6Imports_re codeContent;
          hasJSInHTML = regex_test jsInHTML_re codeContent;
          isHtmlWithJs = ((str_includes className ''html'' \<or> str_includes className ''xml'')
                           \<and> (hasTags \<or> hasES6Imports \<or> hasJSInHTML));
          score = length (filter (\<lambda>r. regex_test r codeContent) content_signals);
          isContentBased = (\<not> str_includes className ''html'' \<and> \<not> str_includes className ''xml''
                             \<and> \<not> str_includes className ''css''
                             \<and> \<not> isDirect \<and> \<not> isHtmlWithJs
                             \<and> 2 \<le> score
                             \<and> \<not> regex_test startsWithTag_re codeContent
                             \<and> \<not> regex_test startsWithCssRule_re codeContent)
      in \<lparr>isJavaScript = (isDirect \<or> isHtmlWithJs \<or> isContentBased),
          isDirectJavaScript = isDirect,
          isHtmlWithJavaScript = isHtmlWithJs,
          isContentBasedJavaScript = isContentBased,
          hasScriptTags = hasTags,
          contentBasedScore = score\<rparr>)"

section \<open>Sandbox Builder\<close>

text \<open>
  \<open>JSON.stringify\<close> of a string: the text between double quotes, where the double quote, the
  backslash and the control characters below U+0020 are written as escapes (a backslash and the
  text of the table) and every other character stands for itself.
\<close>

definition json_escapes :: "(char \<times> string) list" where
  "json_escapes =
     [(CHR 0x00, ''u0000''), (CHR 0x01, ''u0001''), (CHR 0x02, ''u0002''), (CHR 0x03, ''u0003''),
      (CHR 0x04, ''u0004''), (CHR 0x05, ''u0005''), (CHR 0x06, ''u0006''), (CHR 0x07, ''u0007''),
      (CHR 0x08, ''b''), (CHR 0x09, ''t''), (CHR 0x0A, ''n''), (CHR 0x0B, ''u000b''),
      (CHR 0x0C, ''f''), (CHR 0x0D, ''r''), (CHR 0x0E, ''u000e''), (CHR 0x0F, ''u000f''),
      (CHR 0x10, ''u0010''), (CHR 0x11, ''u0011''), (CHR 0x12, ''u0012''), (CHR 0x13, ''u0013''),
      (CHR 0x14, ''u0014''), (CHR 0x15, ''u0015''), (CHR 0x16, ''u0016''), (CHR 0x17, ''u0017''),
      (CHR 0x18, ''u0018''), (CHR 0x19, ''u0019''), (CHR 0x1A, ''u001a''), (CHR 0x1B, ''u001b''),
      (CHR 0x1C, ''u001c''), (CHR 0x1D, ''u001d''), (CHR 0x1E, ''u001e''), (CHR 0x1F, ''u001f''),
      (CHR 0x22, [CHR 0x22]), (CHR 0x5C, [CHR 0x5C])]"

definition json_quote_char :: "char \<Rightarrow> string" where
  "json_quote_char c = (case map_of json_escapes c of Some e \<Rightarrow> CHR 0x5C # e | None \<Rightarrow> [c])"

definition JSON_stringify :: "string \<Rightarrow> string" where
  "JSON_stringify s = CHR 0x22 # concat (map json_quote_char s) @ [CHR 0x22]"

text \<open>\<open>JSON.stringify\<close> of an array of strings.\<close>

definition JSON_stringify_array :: "string list \<Rightarrow> string" where
  "JSON_stringify_array xs = ''['' @ join '','' (map JSON_stringify xs) @ '']''"

text \<open>
  The document of the sandbox is a template literal with three holes: the frame id, the library
  sources and the user code. The texts between the holes are those of the source, the head of
  the document up to and with the start tag of its script first.
\<close>

definition sandbox_html_head :: string where
  \<open>sandbox_html_head =
       ''<html><head><style>\<newline>''
       @ ''        html, body { \<newline>''
       @ ''            font-family: var(--mainFontFamily, sans-serif); \<newline>''
       @ ''            color: var(--text-color, #000); \<newline>''
       @ ''            background-color: transparent; \<newline>''
       @ ''            margin: 0; \<newline>''
       @ ''            padding: 8px; \<newline>''
       @ ''            overflow: auto;\<newline>''
       @ ''            max-height: 600px;\<newline>''
       @ ''            box-sizing: border-box;\<newline>''
       @ ''        }\<newline>''
       @ ''        #root { \<newline>''
       @ ''            width: 100%; \<newline>''
       @ ''            max-width: 100%; \<newline>''
       @ ''            box-sizing: border-box;\<newline>''
       @ ''            overflow: auto;\<newline>''
       @ ''            max-height: 580px;\<newline>''
       @ ''        }\<newline>''
       @ ''        /* Ensure form elements fit properly */\<newline>''
       @ ''        input, button, textarea, select {\<newline>''
       @ ''            max-width: 100%;\<newline>''
       @ ''            box-sizing: border-box;\<newline>''
       @ ''        }\<newline>''
       @ ''    </style></head><body><div id="root"></div><script>''\<close>

definition sandbox_script_a :: string where
  \<open>sandbox_script_a =
       ''(()=>{\<newline>''
       @ ''        const e="''\<close>

definition sandbox_script_b :: string where
  \<open>sandbox_script_b =
       ''";\<newline>''
       @ ''        const t=o=>window.parent.postMessage({type:"ember-error",frameId:e,message:o},"*");\<newline>''
       @ ''        const n=()=>window.parent.postMessage({type:"ember-success",frameId:e},"*");\<newline>''
       @ ''\<newline>''
       @ ''        // Smart DOM redirection - intercept common DOM operations and redirect to root\<newline>''
       @ ''        const rootElement = document.getElementById("root");\<newline>''
       @ ''        const createdElements = {}; // Track elements we create\<newline>''
       @ ''        \<newline>''
       @ ''        // Smart element creation - create missing elements on demand\<newline>''
       @ ''        function createMissingElement(id) {\<newline>''
       @ ''            if (createdElements[id]) {\<newline>''
       @ ''                return createdElements[id];\<newline>''
       @ ''            }\<newline>''
       @ ''            \<newline>''
       @ ''            console.log("[Ember Smart Create] Creating missing element with ID: " + id);\<newline>''
       @ ''            let element;\<newline>''
       @ ''            \<newline>''
       @ ''            // Create appropriate element types based on common ID patterns\<newline>''
       @ ''            if (id.toLowerCase().includes('input') || id.toLowerCase().includes('text') || id.toLowerCase().includes('field')) {\<newline>''
       @ ''                element = document.createElement('input');\<newline>''
       @ ''                element.type = 'text';\<newline>''
       @ ''                element.placeholder = 'Enter text...';\<newline>''
       @ ''                element.style.cssText = 'padding: 8px; margin: 4px; border: 1px solid #ccc; border-radius: 4px; width: 200px;';\<newline>''
       @ ''            } else if (id.toLowerCase().includes('button') || id.toLowerCase().includes('btn')) {\<newline>''
       @ ''                element = document.createElement('button');\<newline>''
       @ ''                element.textContent = id.replace(/([A-Z])/g, ' $1').replace(/^./, str => str.toUpperCase());\<newline>''
       @ ''                element.style.cssText = 'padding: 8px 16px; margin: 4px; background: #007bff; color: white; border: none; border-radius: 4px; cursor: pointer;';\<newline>''
       @ ''            } else if (id.toLowerCase().includes('display') || id.toLowerCase().includes('output') || id.toLowerCase().includes('result')) {\<newline>''
       @ ''                element = document.createElement('div');\<newline>''
       @ ''                element.textContent = 'Output will appear here...';\<newline>''
       @ ''                element.style.cssText = 'padding: 12px; margin: 8px; border: 1px dashed #ccc; background: #f9f9f9; border-radius: 4px; min-height: 30px;';\<newline>''
       @ ''            } else if (id.toLowerCase().includes('message') || id.toLowerCase().includes('msg')) {\<newline>''
       @ ''                element = document.createElement('div');\<newline>''
       @ ''                element.style.cssText = 'padding: 8px; margin: 4px; border: 1px solid #ddd; border-radius: 4px; min-height: 20px;';\<newline>''
       @ ''            } else {\<newline>''
       @ ''                // Default to div for unknown elements\<newline>''
       @ ''                element = document.createElement('div');\<newline>''
       @ ''                element.style.cssText = 'padding: 4px; margin: 2px; border: 1px solid #eee; border-radius: 2px;';\<newline>''
       @ ''            }\<newline>''
       @ ''            \<newline>''
       @ ''            element.id = id;\<newline>''
       @ ''            createdElements[id] = element;\<newline>''
       @ ''            rootElement.appendChild(element);\<newline>''
       @ ''            console.log("[Ember Smart Create] Created and appended " + element.tagName + " with ID: " + id);\<newline>''
       @ ''            return element;\<newline>''
       @ ''        }\<newline>''
       @ ''        \<newline>''
       @ ''        // Override document.getElementById to create missing elements\<newline>''
       @ ''        const originalGetElementById = document.getElementById;\<newline>''
       @ ''        document.getElementById = function(id) {\<newline>''
       @ ''            const element = originalGetElementById.call(document, id);\<newline>''
       @ ''            if (!element && id !== 'root') {\<newline>''
       @ ''                console.log("[Ember Smart Redirect] Element '" + id + "' not found, creating it...");\<newline>''
       @ ''                return createMissingElement(id);\<newline>''
       @ ''            }\<newline>''
       @ ''            return element;\<newline>''
       @ ''        };\<newline>''
       @ ''        \<newline>''
       @ ''        // Override document.querySelector to create missing elements for ID selectors\<newline>''
       @ ''        const originalQuerySelector = document.querySelector;\<newline>''
       @ ''        document.querySelector = function(selector) {\<newline>''
       @ ''            const element = originalQuerySelector.call(document, selector);\<newline>''
       @ ''            if (!element && selector !== '#root' && selector !== 'body' && selector !== 'html') {\<newline>''
       @ ''                console.log("[Ember Smart Redirect] Selector '" + selector + "' not found");\<newline>''
       @ ''                // If it's an ID selector (#something), create the element\<newline>''
       @ ''                if (selector.startsWith('#')) {\<newline>''
       @ ''                    const id = selector.substring(1);\<newline>''
       @ ''                    console.log("[Ember Smart Redirect] Creating element for ID selector: " + id);\<newline>''
       @ ''                    return createMissingElement(id);\<newline>''
       @ ''                }\<newline>''
       @ ''                // For other selectors, return root as fallback\<newline>''
       @ ''                console.log("[Ember Smart Redirect] Using root as fallback for selector: " + selector);\<newline>''
       @ ''                return rootElement;\<newline>''
       @ ''            }\<newline>''
       @ ''            return element;\<newline>''
       @ ''        };\<newline>''
       @ ''        \<newline>''
       @ ''        // Override document.body to redirect appendChild calls to root\<newline>''
       @ ''        const originalBodyAppendChild = document.body.appendChild;\<newline>''
       @ ''        document.body.appendChild = function(element) {\<newline>''
       @ ''            console.log("[Ember Smart Redirect] Redirecting document.body.appendChild to root.appendChild");\<newline>''
       @ ''            return rootElement.appendChild(element);\<newline>''
       @ ''        };\<newline>''
       @ ''        \<newline>''
       @ ''        // Override document.appendChild to redirect to root (if it exists)\<newline>''
       @ ''        if (document.appendChild) {\<newline>''
       @ ''            const originalDocAppendChild = document.appendChild;\<newline>''
       @ ''            document.appendChild = function(element) {\<newline>''
       @ ''                console.log("[Ember Smart Redirect] Redirecting document.appendChild to root.appendChild");\<newline>''
       @ ''                return rootElement.appendChild(element);\<newline>''
       @ ''            };\<newline>''
       @ ''        }\<newline>''
       @ ''\<newline>''
       @ ''        window.ember = {\<newline>''
       @ ''            inject: function(options) {\<newline>''
       @ ''                if (!options || typeof options.content !== 'string') {\<newline>''
       @ ''                    t("Ember Internal Error: ember.inject called with invalid options. 'content' (string) is required.");\<newline>''
       @ ''                    return;\<newline>''
       @ ''                }\<newline>''
       @ ''                const injectionData = {\<newline>''
       @ ''                    id: typeof options.id === 'string' ? options.id : 'ember_js_block',\<newline>''
       @ ''                    depth: typeof options.depth === 'number' ? options.depth : 0,\<newline>''
       @ ''                    content: options.content,\<newline>''
       @ ''                    ephemeral: typeof options.ephemeral === 'boolean' ? options.ephemeral : false\<newline>''
       @ ''                };\<newline>''
       @ ''                window.parent.postMessage({ type: "ember-inject-js", frameId: e, injection: injectionData }, "*");\<newline>''
       @ ''            }\<newline>''
       @ ''        };\<newline>''
       @ ''\<newline>''
       @ ''        let o=!1;\<newline>''
       @ ''        const s=()=>{if(o)return;o=!0,clearTimeout(d),i&&i.disconnect(), setTimeout(n, 50);};\<newline>''
       @ ''        const d=setTimeout(()=>{o||t("Ember Warning: Script produced no visual output within 7 seconds.")},7000);\<newline>''
       @ ''        const i=new MutationObserver(()=>{ if(document.getElementById("root")?.hasChildNodes()){ s(); } });\<newline>''
       @ ''        const rootElementForObserver = document.getElementById("root");\<newline>''
       @ ''        if(rootElementForObserver) {\<newline>''
       @ ''             i.observe(rootElementForObserver,{childList:!0,subtree:!0});\<newline>''
       @ ''             if (rootElementForObserver.hasChildNodes()) { s(); }\<newline>''
       @ ''        } else {\<newline>''
       @ ''            t("Ember Internal Error: #root element not found in iframe for MutationObserver.");\<newline>''
       @ ''        }\<newline>''
       @ ''\<newline>''
       @ ''        new ResizeObserver(()=>{\<newline>''
       @ ''            const o=Math.ceil(document.documentElement.scrollHeight);\<newline>''
       @ ''            if(o>0) window.parent.postMessage({type:"ember-resize",frameId:e,height:o},"*");\<newline>''
       @ ''        }).observe(document.documentElement);\<newline>''
       @ ''\<newline>''
       @ ''        try{\<newline>''
       @ ''            console.log("[Ember Iframe] Starting execution...");\<newline>''
       @ ''            \<newline>''
       @ ''            // Load all libraries automatically\<newline>''
       @ ''            const libraryScripts = ''\<close>

definition sandbox_script_c :: string where
  \<open>sandbox_script_c =
       '';\<newline>''
       @ ''            console.log("[Ember Iframe] Loading", libraryScripts.length, "libraries...");\<newline>''
       @ ''            for(const scriptContent of libraryScripts){\<newline>''
       @ ''                const scriptEl = document.createElement("script");\<newline>''
       @ ''                scriptEl.textContent = scriptContent;\<newline>''
       @ ''                document.head.appendChild(scriptEl);\<newline>''
       @ ''            }\<newline>''
       @ ''            console.log("[Ember Iframe] Libraries loaded");\<newline>''
       @ ''            \<newline>''
       @ ''            // Make libraries available globally for easy access\<newline>''
       @ ''            if (window.Chart) { window.Chart = window.Chart; }\<newline>''
       @ ''            \<newline>''
       @ ''            const userCodeToRun = ''\<close>

definition sandbox_script_d :: string where
  \<open>sandbox_script_d =
       '';\<newline>''
       @ ''            console.log("[Ember Iframe] User code length:", userCodeToRun.length);\<newline>''
       @ ''            console.log("[Ember Iframe] User code preview:", userCodeToRun.substring(0, 200) + "...");\<newline>''
       @ ''            \<newline>''
       @ ''            const rootElement = document.getElementById("root");\<newline>''
       @ ''            if (!rootElement) { t("Ember Internal Error: #root element not found in iframe."); return; }\<newline>''
       @ ''            console.log("[Ember Iframe] Root element found:", rootElement);\<newline>''
       @ ''            \<newline>''
       @ ''            // Execute user code with root element available\<newline>''
       @ ''            console.log("[Ember Iframe] Executing user code...");\<newline>''
       @ ''            new Function('root', userCodeToRun)(rootElement);\<newline>''
       @ ''            console.log("[Ember Iframe] User code executed successfully");\<newline>''
       @ ''            setTimeout(s, 1000);\<newline>''
       @ ''        }catch(err){\<newline>''
       @ ''            console.error("[Ember Iframe] Execution error:", err);\<newline>''
       @ ''            t("Ember Execution Error: "+(err.stack||err.message));\<newline>''
       @ ''        }})();''\<close>


definition sandbox_main_script_a :: string where
  \<open>sandbox_main_script_a =
       ''(()=>{\<newline>''
       @ ''        const e="''\<close>

definition sandbox_main_script_b :: string where
  \<open>sandbox_main_script_b =
       ''";\<newline>''
       @ ''        const t=o=>window.parent.postMessage({type:"ember-error",frameId:e,message:o},"*");\<newline>''
       @ ''        const n=()=>window.parent.postMessage({type:"ember-success",frameId:e},"*");\<newline>''
       @ ''\<newline>''
       @ ''        window.ember = {\<newline>''
       @ ''            inject: function(options) {\<newline>''
       @ ''                if (!options || typeof options.content !== 'string') {\<newline>''
       @ ''                    t("Ember Internal Error: ember.inject called with invalid options. 'content' (string) is required.");\<newline>''
       @ ''                    return;\<newline>''
       @ ''                }\<newline>''
       @ ''                const injectionData = {\<newline>''
       @ ''                    id: typeof options.id === 'string' ? options.id : 'ember_js_block',\<newline>''
       @ ''                    depth: typeof options.depth === 'number' ? options.depth : 0,\<newline>''
       @ ''                    content: options.content,\<newline>''
       @ ''                    ephemeral: typeof options.ephemeral === 'boolean' ? options.ephemeral : false\<newline>''
       @ ''                };\<newline>''
       @ ''                window.parent.postMessage({ type: "ember-inject-js", frameId: e, injection: injectionData }, "*");\<newline>''
       @ ''            }\<newline>''
       @ ''        };\<newline>''
       @ ''\<newline>''
       @ ''        let o=!1;\<newline>''
       @ ''        const s=()=>{if(o)return;o=!0,clearTimeout(d),i&&i.disconnect(), setTimeout(n, 50);};\<newline>''
       @ ''        const d=setTimeout(()=>{o||t("Ember Warning: Script produced no visual output within 7 seconds.")},7000);\<newline>''
       @ ''        const i=new MutationObserver(()=>{ if(document.getElementById("root")?.hasChildNodes()){ s(); } });\<newline>''
       @ ''        const rootElementForObserver = document.getElementById("root");\<newline>''
       @ ''        if(rootElementForObserver) {\<newline>''
       @ ''             i.observe(rootElementForObserver,{childList:!0,subtree:!0});\<newline>''
       @ ''             if (rootElementForObserver.hasChildNodes()) { s(); }\<newline>''
       @ ''        } else {\<newline>''
       @ ''            t("Ember Internal Error: #root element not found in iframe for MutationObserver.");\<newline>''
       @ ''        }\<newline>''
       @ ''\<newline>''
       @ ''        new ResizeObserver(()=>{\<newline>''
       @ ''            const o=Math.ceil(document.documentElement.scrollHeight);\<newline>''
       @ ''            if(o>0) window.parent.postMessage({type:"ember-resize",frameId:e,height:o},"*");\<newline>''
       @ ''        }).observe(document.documentElement);\<newline>''
       @ ''\<newline>''
       @ ''        try{\<newline>''
       @ ''            const libraryScripts = ''\<close>

definition sandbox_main_script_c :: string where
  \<open>sandbox_main_script_c =
       '';\<newline>''
       @ ''            for(const scriptContent of libraryScripts){\<newline>''
       @ ''                const scriptEl = document.createElement("script");\<newline>''
       @ ''                scriptEl.textContent = scriptContent;\<newline>''
       @ ''                document.head.appendChild(scriptEl);\<newline>''
       @ ''            }\<newline>''
       @ ''            const userCodeToRun = ''\<close>

definition sandbox_main_script_d :: string where
  \<open>sandbox_main_script_d =
       '';\<newline>''
       @ ''            const rootElement = document.getElementById("root");\<newline>''
       @ ''            if (!rootElement) { t("Ember Internal Error: #root element not found in iframe."); return; }\<newline>''
       @ ''            new Function('root', userCodeToRun)(rootElement);\<newline>''
       @ ''             setTimeout(s, 1000);\<newline>''
       @ ''        }catch(err){\<newline>''
       @ ''            t("Ember Execution Error: "+(err.stack||err.message));\<newline>''
       @ ''        }})();''\<close>







text \<open>The script of the sandbox document, and the document: the builder of part_000.\<close>

definition sandbox_script :: "string \<Rightarrow> string list \<Rightarrow> string \<Rightarrow> string" where
  "sandbox_script code libraryCodes fid =
     sandbox_script_a @ fid @ sandbox_script_b @ JSON_stringify_array libraryCodes
       @ sandbox_script_c @ JSON_stringify code @ sandbox_script_d"

definition iframeContent :: "string \<Rightarrow> string list \<Rightarrow> string \<Rightarrow> string" where
  "iframeContent code libraryCodes fid =
     sandbox_html_head @ sandbox_script code libraryCodes fid @ ''</script></body></html>''"

record iframe =
  iframe_sandbox :: string
  iframe_frameId :: string
  iframe_content :: string

definition createSandboxedFrame :: "string \<Rightarrow> string list \<Rightarrow> string \<Rightarrow> iframe" where
  "createSandboxedFrame code libraryCodes fid =
     \<lparr>iframe_sandbox = ''allow-scripts allow-same-origin'',
      iframe_frameId = fid,
      iframe_content = iframeContent code libraryCodes fid\<rparr>"

text \<open>
  The builder of main.js creates its frame with
  \<open>Object.assign(document.createElement('iframe'), {className, sandbox, dataset: {frameId}})\<close>.
  \<open>Object.assign\<close> assigns the properties of its source in turn, and an assignment that fails
  throws: \<open>dataset\<close> is a property of an element with a getter and no setter, so the call
  throws \<open>TypeError\<close> when it comes to it. Elements are lists of properties here, and the frame
  id stands for the object \<open>{frameId}\<close>.
\<close>

datatype js_error = TypeError string

definition getter_only :: "string list" where
  "getter_only = [''dataset'']"

fun Object_assign :: "(string \<times> string) list \<Rightarrow> (string \<times> string) list \<Rightarrow> js_error + (string \<times> string) list" where
  "Object_assign target [] = Inr target"
| "Object_assign target ((k, v) # ps) =
     (if k \<in> set getter_only
      then Inl (TypeError (''Cannot set property '' @ k @ '' which has only a getter''))
      else Object_assign (target @ [(k, v)]) ps)"

text \<open>The document that the builder of main.js goes on to write: a shorter bootstrap.\<close>

definition sandbox_script_main :: "string \<Rightarrow> string list \<Rightarrow> string \<Rightarrow> string" where
  "sandbox_script_main code libraryCodes fid =
     sandbox_main_script_a @ fid @ sandbox_main_script_b @ JSON_stringify_array libraryCodes
       @ sandbox_main_script_c @ JSON_stringify code @ sandbox_main_script_d"






text \<open>
  How the browser delimits the script of such a document. After the start tag of a script the
  HTML tokenizer is in the script data state: the text of the element runs up to the first
  \<open></script\<close> (in any case of letters) that is followed by a tab, a line feed, a form feed, a
  space, \<open>/\<close> or \<open>>\<close>. Text with \<open><!--\<close> in it switches the tokenizer to its escaped states,
  which are not modelled: the result is None there, as it is when no end tag is found.
\<close>

definition to_lower :: "char \<Rightarrow> char" where
  "to_lower c = (if c \<in> set (drop 26 letters) then other_case c else c)"

definition is_script_end :: "string \<Rightarrow> bool" where
  "is_script_end s =
     (map to_lower (take 8 s) = ''</script''
      \<and> (case drop 8 s of
            [] \<Rightarrow> False
          | c # _ \<Rightarrow> c \<in> set [CHR 0x09, CHR 0x0A, CHR 0x0C, CHR 0x20, CHR ''/'', CHR ''>'']))"

fun script_text :: "string \<Rightarrow> string option" where
  "script_text [] = None"
| "script_text (c # cs) =
     (if is_script_end (c # cs) then Some []
      else if startsWith (c # cs) ''<!--'' then None
      else map_option ((#) c) (script_text cs))"

section \<open>Dependency Resolver\<close>

definition MODULE_NAME :: string where
  "MODULE_NAME = ''Ember''"

definition BUILT_IN_LIBRARIES :: "(string \<times> string) list" where
  "BUILT_IN_LIBRARIES =
     [(''d3'', ''d3.v7.min.js''), (''three'', ''three.r128.min.js''), (''p5'', ''p5.v1.4.0.min.js''),
      (''anime'', ''anime.v3.2.1.min.js''), (''chartjs'', ''chart.umd.js''),
      (''matter'', ''matter.v0.18.0.min.js'')]"

text \<open>
  What the program cannot decide by itself is a parameter: whether the engine accepts a text as
  a function body (\<open>new Function(code)\<close> does not throw), what the network returns for a URL
  (None when the request fails or the response is not ok), the successive readings of
  \<open>Date.now()\<close>, the origin of the page, and the two settings of the extension that the
  processors read (\<open>emberSettings.directHtmlEnabled\<close> and \<open>directHtmlProcessingMode\<close>).
\<close>

record env =
  syntax_ok :: "string \<Rightarrow> bool"
  fetch :: "string \<Rightarrow> string option"
  now :: "nat \<Rightarrow> int"
  origin :: string
  directHtmlEnabled :: bool
  directHtmlProcessingMode :: string

definition lib_url :: "string \<Rightarrow> string \<Rightarrow> string" where
  "lib_url org file = org @ ''/scripts/extensions/third-party/'' @ MODULE_NAME @ ''/lib/'' @ file"

text \<open>
  \<open>requestedLibs.map(alias => BUILT_IN_LIBRARIES.find(lib => lib.alias === alias))
  .filter(Boolean).map(libDef => url)\<close>: the resolver of main.js and of part_000.
\<close>

definition libUrls :: "string \<Rightarrow> string list \<Rightarrow> string list" where
  "libUrls org requestedLibs =
     map (lib_url org) (List.map_filter (map_of BUILT_IN_LIBRARIES) requestedLibs)"

text \<open>\<open>Promise.all\<close> over the fetches: all the texts, or a failure when one request fails.\<close>

fun fetch_all :: "(string \<Rightarrow> string option) \<Rightarrow> string list \<Rightarrow> string list option" where
  "fetch_all f [] = Some []"
| "fetch_all f (u # us) =
     (case f u of None \<Rightarrow> None | Some t \<Rightarrow> map_option ((#) t) (fetch_all f us))"

text \<open>
  The resolver of the legacy processor: the same lookup in a loop that warns on the console
  for every alias it does not find. The result is the approved URLs and the warnings.
\<close>

definition unknown_library_warning :: "string \<Rightarrow> string" where
  "unknown_library_warning alias =
     ''[Ember] LLM requested an unknown library: '' @ [CHR 0x27] @ alias @ [CHR 0x27]
       @ ''. It will be ignored.''"

fun resolve_legacy :: "string \<Rightarrow> string list \<Rightarrow> string list \<times> string list" where
  "resolve_legacy org [] = ([], [])"
| "resolve_legacy org (alias # rest) =
     (case map_of BUILT_IN_LIBRARIES alias of
        Some file \<Rightarrow> (lib_url org file # fst (resolve_legacy org rest), snd (resolve_legacy org rest))
      | None \<Rightarrow>
          (fst (resolve_legacy org rest),
           unknown_library_warning alias # snd (resolve_legacy org rest)))"



section \<open>Message Processor\<close>

text \<open>
  A code block of the rendered message (\<open>pre > code\<close>): the class of the \<open>code\<close> element, its
  text, and of its \<open>pre\<close> parent the mark \<open>data-ember-processed\<close> and the display style.
  A script element that \<open>DOMParser\<close> finds in the raw message: its text and its \<open>src\<close>.
\<close>

record code_block =
  className :: string
  innerText :: string
  emberProcessed :: "string option"
  pre_display :: string

record script_el =
  script_innerHTML :: string
  script_src :: "string option"

text \<open>
  A message: whether its \<open>.mes_text\<close> element is there, whether that element already holds a
  frame or an editor, whether it is marked \<open>genericHtmlRendered\<close>, whether the message is the
  user's, the raw text \<open>chat[messageId].mes\<close>, the script elements that \<open>DOMParser\<close> finds in the
  raw text, and the code blocks of the rendered message in document order.
\<close>

record message_dom =
  text_element_present :: bool
  has_frame_or_editor :: bool
  genericHtmlRendered :: bool
  is_user :: bool
  mes :: "string option"
  mes_scripts :: "script_el list"
  blocks :: "code_block list"

text \<open>
  A context that a pass created: its identifier, the code it runs and its frame. The state of
  a pass: the ledger of fingerprints (\<open>processedScriptHashes\<close>), the number of clock readings
  made, the flag \<open>processedByEmberJs\<close>, the contexts created (in the order of their creation),
  the containers that carry a frame id (in document order), the number of those that were
  appended at the end of the message, the error panels appended without a frame id, the
  markup written into the frame of the direct rendering, the markup held by the run button,
  and the warnings and errors written to the console.
\<close>

record exec_context =
  ctx_frameId :: string
  ctx_code :: string
  ctx_frame :: iframe

record pass =
  ledger :: "string list"
  reads :: nat
  processedByEmberJs :: bool
  contexts :: "exec_context list"
  page :: host
  appended :: nat
  errorPanels :: "loading_container list"
  genericHtml :: "string option"
  runButtonHtml :: "string option"
  console :: "string list"

definition empty_host :: host where
  "empty_host =
     \<lparr>loadingContainers = [], emberContainers = [], emberMaxHeights = Map.empty,
      processedCode = Map.empty\<rparr>"

definition new_pass :: pass where
  "new_pass =
     \<lparr>ledger = [], reads = 0, processedByEmberJs = False, contexts = [], page = empty_host,
      appended = 0, errorPanels = [], genericHtml = None, runButtonHtml = None, console = []\<rparr>"

definition loading_error_html :: string where
  \<open>loading_error_html =
     ''<i class="fa-solid fa-triangle-exclamation"></i> <span><b>Ember JS Error:</b> ''
       @ ''Could not create sandbox or load libraries. Check console.</span>''\<close>

definition script_error_html :: string where
  \<open>script_error_html =
     ''<i class="fa-solid fa-triangle-exclamation"></i> <span><b>Ember JS Error:</b> ''
       @ ''Could not create sandbox for script. Check console.</span>''\<close>

definition script_spinner_html :: string where
  \<open>script_spinner_html =
     ''<i class="fa-solid fa-spinner fa-spin"></i> <span>Ember JS preparing script...</span>''\<close>

text \<open>
  Where the containers go. The containers of a script element are appended at the end of the
  message (\<open>messageTextElement.appendChild\<close>); those of a code block are put right after its
  \<open>pre\<close> (\<open>insertAdjacentElement('afterend', ...)\<close>), which is before everything that was
  appended at the end and after the containers of the blocks before it. \<open>insert_before_tail n\<close>
  puts an element before the last \<open>n\<close> of a list. When the libraries of a code block fail to
  load, its loading container stays, with the error, and its output container is removed.
\<close>

definition insert_before_tail :: "nat \<Rightarrow> 'a \<Rightarrow> 'a list \<Rightarrow> 'a list" where
  "insert_before_tail n x xs = take (length xs - n) xs @ x # drop (length xs - n) xs"

definition add_containers :: "nat \<Rightarrow> string \<Rightarrow> string \<Rightarrow> host \<Rightarrow> host" where
  "add_containers tail fid html h =
     h\<lparr>loadingContainers :=
         insert_before_tail tail (fid, \<lparr>innerHTML = html, style_color = [], style_display = []\<rparr>)
           (loadingContainers h),
       emberContainers :=
         insert_before_tail tail (fid, \<lparr>final_display = ''none'', final_height = None\<rparr>)
           (emberContainers h)\<rparr>"

definition add_error_container :: "nat \<Rightarrow> string \<Rightarrow> string \<Rightarrow> host \<Rightarrow> host" where
  "add_error_container tail fid html h =
     h\<lparr>loadingContainers :=
         insert_before_tail tail
           (fid, \<lparr>innerHTML = html, style_color = ''var(--text-color-error)'', style_display = []\<rparr>)
           (loadingContainers h)\<rparr>"

text \<open>The character references that the processor decodes, in the order of its replacements.\<close>

definition entity_table :: "(string \<times> string) list" where
  \<open>entity_table =
     [(''&lt;'', ''<''), (''&gt;'', ''>''), (''&amp;'', ''&''), (''&quot;'', ''"''),
      (''&#x27;'', [CHR 0x27]), (''&#39;'', [CHR 0x27]), (''&nbsp;'', '' '')]\<close>

definition decode_entities :: "string \<Rightarrow> string" where
  "decode_entities s = foldl (\<lambda>t (p, r). replace_all (re_lit p) r t) s entity_table"

text \<open>The regular expressions of \<open>extractJavaScriptFromHTML\<close>.\<close>

definition scriptBlocks_re :: regex where
  \<open>scriptBlocks_re =
     re_seq [re_lit_ci ''<script'', WordB, Star True (Cls True ''>''), re_chr CHR ''>'',
       Group 1 (Star False re_any), re_lit_ci ''</script>'']\<close>

definition scriptTagOnly_re :: regex where
  \<open>scriptTagOnly_re =
     Alt (re_seq [re_lit_ci ''<script'', WordB, Star True (Cls True ''>''), re_chr CHR ''>''])
       (re_lit_ci ''</script>'')\<close>

definition scriptSection_re :: regex where
  \<open>scriptSection_re =
     re_seq [re_lit_ci ''<script'', Star True (Cls True ''>''), re_chr CHR ''>'',
       Group 1 (Star False re_any), Alt (re_lit_ci ''</script>'') EOL]\<close>

definition declaration_re :: "string \<Rightarrow> regex" where
  \<open>declaration_re kw =
     re_seq [re_lit kw, re_plus re_space, re_plus re_word, Star True re_space, re_chr CHR ''='']\<close>

definition jsStart_re :: regex where
  \<open>jsStart_re =
     re_seq [BOL, Star True re_space,
       Group 1 (re_alt
         [re_seq [re_lit ''import'', re_plus re_space, Star True re_dot, re_lit ''from''],
          re_seq [re_lit ''//'', Star True re_space, re_lit ''Import''],
          declaration_re ''const'', declaration_re ''let'', declaration_re ''var'',
          re_seq [re_lit ''function'', re_plus re_space, re_plus re_word],
          re_seq [re_lit ''class'', re_plus re_space, re_plus re_word]])]\<close>

definition cssRuleLine_re :: regex where
  \<open>cssRuleLine_re =
     re_seq [BOL, Star True re_space, Cls False (letters @ ''#.''), Star True (Cls True ''{''),
       re_chr CHR ''{'', Star True re_any, Opt True (re_chr CHR ''}''), Star True re_space, EOL]\<close>

definition cssPropertyLine_re :: regex where
  \<open>cssPropertyLine_re =
     re_seq [BOL, Star True re_space, re_plus (Cls False (letters @ ''-'')), Star True re_space,
       re_chr CHR '':'', Star True re_space, re_plus (Cls True '';''), re_chr CHR '';'',
       Star True re_space, EOL]\<close>

definition htmlTagLine_re :: regex where
  \<open>htmlTagLine_re =
     re_seq [BOL, Star True re_space, re_chr CHR ''<'', Opt True (re_chr CHR ''/''),
       Cls False letters]\<close>

definition jsLine_re :: regex where
  \<open>jsLine_re =
     re_seq [WordB,
       Group 1 (re_alt
         (map re_lit [''import'', ''export'', ''const'', ''let'', ''var'', ''function'', ''class'',
            ''if'', ''for'', ''while'', ''return'', ''=>|'', ''.addEventListener'',
            ''.querySelector'']
          @ [re_seq [re_lit ''new'', re_plus re_space, re_plus re_word]]
          @ map re_lit [''console.'', ''document.'', ''window.''])),
       WordB]\<close>

definition commentLine_re :: regex where
  \<open>commentLine_re = re_seq [BOL, Star True re_space, re_lit ''//'']\<close>

definition closingBrace_re :: regex where
  \<open>closingBrace_re =
     re_seq [BOL, Star True re_space, re_chr CHR ''}'', Opt True (Cls False '',;''),
       Star True re_space, EOL]\<close>

definition is_js_line :: "string \<Rightarrow> bool" where
  "is_js_line line =
     (let trimmedLine = trim line in
      if regex_test cssRuleLine_re trimmedLine then False
      else if regex_test cssPropertyLine_re trimmedLine then False
      else if regex_test htmlTagLine_re trimmedLine then False
      else regex_test jsLine_re trimmedLine \<or> regex_test commentLine_re trimmedLine
             \<or> regex_test closingBrace_re trimmedLine)"

definition extractJavaScriptFromHTML :: "string \<Rightarrow> detection \<Rightarrow> string" where
  "extractJavaScriptFromHTML codeContent jsDetection =
     (if hasScriptTags jsDetection then
        (case match_all scriptBlocks_re codeContent of
           [] \<Rightarrow> codeContent
         | m # ms \<Rightarrow>
             join [CHR 0x0A, CHR 0x0A]
               (filter (\<lambda>content. content \<noteq> [])
                  (map (\<lambda>x. trim (decode_entities (replace_all scriptTagOnly_re [] x))) (m # ms))))
      else
        decode_entities
          (case regex_exec scriptSection_re codeContent of
             Some m \<Rightarrow> (case match_group m 1 of Some g \<Rightarrow> g | None \<Rightarrow> [])
           | None \<Rightarrow>
               (let lines = split (CHR 0x0A) codeContent in
                case dropWhile (\<lambda>l. \<not> regex_test jsStart_re (trim l)) lines of
                  [] \<Rightarrow> join [CHR 0x0A] (filter is_js_line lines)
                | l # ls \<Rightarrow> join [CHR 0x0A] (l # ls))))"

text \<open>The code that a block would run, and its fingerprint, as \<open>processMessage\<close> computes them.\<close>

definition javascriptCode_of :: "code_block \<Rightarrow> string" where
  "javascriptCode_of b =
     (let codeContent = trim (innerText b);
          jsDetection = detectJavaScriptContent (className b) codeContent
      in if isHtmlWithJavaScript jsDetection
         then extractJavaScriptFromHTML codeContent jsDetection
         else decode_entities codeContent)"

definition requestedLibs_all :: "string list" where
  "requestedLibs_all = [''d3'', ''three'', ''p5'', ''anime'', ''chartjs'', ''matter'']"

definition frame_id :: "int \<Rightarrow> string \<Rightarrow> int \<Rightarrow> string" where
  "frame_id messageId infix_part t = ''ember-frame-'' @ show_int messageId @ ''-'' @ infix_part @ show_int t"

text \<open>One turn of the loop of \<open>processMessage\<close> (part_000) over the code blocks.\<close>

definition processCodeBlock :: "env \<Rightarrow> int \<Rightarrow> pass \<Rightarrow> code_block \<Rightarrow> pass \<times> code_block" where
  "processCodeBlock ev messageId p b =
     (let codeContent = trim (innerText b);
          jsDetection = detectJavaScriptContent (className b) codeContent
      in if \<not> isJavaScript jsDetection then (p, b)
         else if emberProcessed b = Some ''true'' then (p\<lparr>processedByEmberJs := True\<rparr>, b)
         else if trim codeContent = [] then (p, b\<lparr>emberProcessed := Some ''skipped''\<rparr>)
         else
           (let javascriptCode = javascriptCode_of b;
                codeHash = hash_key (trim javascriptCode)
            in if codeHash \<in> set (ledger p)
               then (p, b\<lparr>emberProcessed := Some ''duplicate'', pre_display := ''none''\<rparr>)
               else
                 (let p1 = p\<lparr>ledger := ledger p @ [codeHash]\<rparr>
                  in if \<not> syntax_ok ev javascriptCode
                     then (p1\<lparr>console := console p1 @ [''[Ember Debug] JavaScript syntax error:'']\<rparr>,
                           b\<lparr>emberProcessed := Some ''syntax-error''\<rparr>)
                     else
                       (let fid = frame_id messageId ''codeblock-'' (now ev (reads p1));
                            p2 = p1\<lparr>processedByEmberJs := True, reads := Suc (reads p1)\<rparr>
                        in case fetch_all (fetch ev) (libUrls (origin ev) requestedLibs_all) of
                             Some libCodes \<Rightarrow>
                               (p2\<lparr>contexts := contexts p2
                                      @ [\<lparr>ctx_frameId = fid, ctx_code = javascriptCode,
                                          ctx_frame = createSandboxedFrame javascriptCode libCodes fid\<rparr>],
                                    page := add_containers (appended p2) fid spinner_html (page p2)\<rparr>,
                                b\<lparr>emberProcessed := Some ''true'', pre_display := ''none''\<rparr>)
                           | None \<Rightarrow>
                               (p2\<lparr>page := add_error_container (appended p2) fid loading_error_html
                                             (page p2),
                                    console := console p2
                                      @ [''[Ember JS] Critical error creating sandbox or fetching libs:'']\<rparr>,
                                b\<lparr>emberProcessed := Some ''false''\<rparr>)))))"

fun processCodeBlocks :: "env \<Rightarrow> int \<Rightarrow> pass \<Rightarrow> code_block list \<Rightarrow> pass \<times> code_block list" where
  "processCodeBlocks ev messageId p [] = (p, [])"
| "processCodeBlocks ev messageId p (b # bs) =
     (case processCodeBlock ev messageId p b of
        (p1, b1) \<Rightarrow>
          (case processCodeBlocks ev messageId p1 bs of
             (p2, bs2) \<Rightarrow> (p2, b1 # bs2)))"

text \<open>
  One turn of the loop of \<open>processScriptTagsInHTML\<close> over the script elements of the raw
  message. The Boolean is \<open>processedAnyScripts\<close>.
\<close>

definition processScriptTag :: "env \<Rightarrow> int \<Rightarrow> pass \<times> bool \<Rightarrow> script_el \<Rightarrow> pass \<times> bool" where
  "processScriptTag ev messageId st script =
     (let p = fst st;
          scriptContent = trim (script_innerHTML script);
          scriptHash = hash_key scriptContent
      in if scriptHash \<in> set (ledger p) then st
         else if scriptContent = [] \<and> (script_src script = None \<or> script_src script = Some []) then st
         else if script_src script \<noteq> None \<and> script_src script \<noteq> Some [] then st
         else if trim scriptContent = [] then st
         else
           (let p1 = p\<lparr>ledger := ledger p @ [scriptHash]\<rparr>
            in if \<not> syntax_ok ev scriptContent
               then (p1\<lparr>console := console p1 @ [''[Ember Debug] Script syntax error:'']\<rparr>, snd st)
               else
                 (let fid = frame_id messageId ''script-'' (now ev (reads p1));
                      p2 = p1\<lparr>reads := Suc (reads p1)\<rparr>
                  in case fetch_all (fetch ev) (libUrls (origin ev) requestedLibs_all) of
                       Some libCodes \<Rightarrow>
                         (p2\<lparr>contexts := contexts p2
                                @ [\<lparr>ctx_frameId = fid, ctx_code = scriptContent,
                                    ctx_frame = createSandboxedFrame scriptContent libCodes fid\<rparr>],
                              page := add_containers 0 fid script_spinner_html (page p2),
                              appended := Suc (appended p2)\<rparr>,
                          True)
                     | None \<Rightarrow>
                         (p2\<lparr>errorPanels := errorPanels p2
                                   @ [\<lparr>innerHTML = script_error_html,
                                       style_color = ''var(--text-color-error)'',
                                       style_display = []\<rparr>],
                              console := console p2
                                @ [''[Ember JS] Critical error creating sandbox for script tag:'']\<rparr>,
                          snd st))))"

definition processScriptTagsInHTML :: "env \<Rightarrow> int \<Rightarrow> pass \<Rightarrow> script_el list \<Rightarrow> pass \<times> bool" where
  "processScriptTagsInHTML ev messageId p scripts = foldl (processScriptTag ev messageId) (p, False) scripts"

text \<open>After script tags were processed, the HTML code blocks that contain script tags are hidden.\<close>

definition hide_html_block :: "code_block \<Rightarrow> code_block" where
  "hide_html_block b =
     (if (str_includes (className b) ''html'' \<or> str_includes (className b) ''xml'')
         \<and> regex_test scriptTags_re (trim (innerText b))
      then b\<lparr>pre_display := ''none'', emberProcessed := Some ''hidden-after-script-processing''\<rparr>
      else b)"

text \<open>
  The direct rendering of markup, to which \<open>processMessage\<close> goes on when the pass has set
  \<open>processedByEmberJs\<close> for nothing. The raw message, or the content of its \<open>html\<close> fence when
  the whole message is one (\<open>/^```html\s*\n([\s\S]*?)\n```\s*$/im\<close>), is tested against
  \<open>complexHtmlRegex\<close>; when it matches and the settings activate the rendering for the author
  of the message, \<open>renderGenericHtmlInFrame\<close> writes it, as it is, into the body of a frame
  sandboxed with \<open>allow-scripts allow-same-origin\<close>, unless the text element is marked as
  rendered; otherwise the markup is kept for the run button.
\<close>

definition htmlCodeBlock_re :: regex where
  "htmlCodeBlock_re =
     re_seq [BOLm, re_lit_ci ''```html'', Star True re_space, re_chr (CHR 0x0A),
       Group 1 (Star False re_any), re_chr (CHR 0x0A), re_lit ''```'', Star True re_space, EOLm]"

definition complex_html_tags :: "string list" where
  "complex_html_tags =
     [''div'', ''table'', ''form'', ''canvas'', ''svg'', ''section'', ''article'', ''header'',
      ''footer'', ''nav'', ''aside'', ''dl'', ''dt'', ''dd'', ''figure'', ''figcaption'', ''summary'',
      ''dialog'', ''menu'', ''input'', ''select'', ''button'', ''textarea'']"

definition complexHtml_re :: regex where
  \<open>complexHtml_re =
     Alt (re_seq [re_chr CHR ''<'', Star True re_space,
            Group 1 (re_alt (map re_lit_ci complex_html_tags)), WordB])
         (re_seq [re_chr CHR ''<'', re_plus (Cls False letters), re_plus re_space,
            Star True (Cls True ''>''), re_lit_ci ''style='', Cls False quote_chars])\<close>

definition generic_frame_sandbox :: string where
  "generic_frame_sandbox = ''allow-scripts allow-same-origin''"

definition htmlForProcessing :: "string \<Rightarrow> string" where
  "htmlForProcessing raw =
     (case regex_exec htmlCodeBlock_re raw of
        None \<Rightarrow> raw
      | Some found \<Rightarrow>
          (case match_group found 1 of
             None \<Rightarrow> raw
           | Some g \<Rightarrow> if g = [] then raw else trim g))"

definition direct_html :: "env \<Rightarrow> message_dom \<Rightarrow> pass \<Rightarrow> pass" where
  "direct_html ev m p =
     (case mes m of
        None \<Rightarrow> p
      | Some raw \<Rightarrow>
          if raw = [] then p
          else
            (let html = htmlForProcessing raw;
                 autoActivateUser = (directHtmlProcessingMode ev = ''both'');
                 autoActivateResponse = (directHtmlProcessingMode ev = ''responses'' \<or> autoActivateUser)
             in if directHtmlEnabled ev \<and> html \<noteq> [] \<and> regex_test complexHtml_re html
                then if (is_user m \<and> autoActivateUser) \<or> (\<not> is_user m \<and> autoActivateResponse)
                     then (if genericHtmlRendered m then p else p\<lparr>genericHtml := Some html\<rparr>)
                     else p\<lparr>runButtonHtml := Some html\<rparr>
                else p))"

text \<open>
  \<open>processMessage\<close> of part_000: the state of the pass and the code blocks as the pass leaves
  them. The script elements of the raw message come first, with the same ledger; when one of
  them was set up, the HTML blocks with script tags are hidden before the loop over the code
  blocks. After the loop the function returns when \<open>processedByEmberJs\<close> is set, and goes on to
  the direct rendering of markup when it is not. The pass runs only when the text element of
  the message is there and holds no frame and no editor yet. What the function does last, the
  wiring of the form controls of the message, creates no frame and is left out.
\<close>

definition scripts_pass :: "env \<Rightarrow> int \<Rightarrow> message_dom \<Rightarrow> pass \<times> bool" where
  "scripts_pass ev messageId m =
     (case mes m of
        None \<Rightarrow> (new_pass, False)
      | Some raw \<Rightarrow>
          if raw = [] then (new_pass, False)
          else processScriptTagsInHTML ev messageId new_pass (mes_scripts m))"

definition loop_start :: "env \<Rightarrow> int \<Rightarrow> message_dom \<Rightarrow> pass" where
  "loop_start ev messageId m =
     (fst (scripts_pass ev messageId m))\<lparr>processedByEmberJs := snd (scripts_pass ev messageId m)\<rparr>"

definition loop_blocks :: "env \<Rightarrow> int \<Rightarrow> message_dom \<Rightarrow> code_block list" where
  "loop_blocks ev messageId m =
     (if snd (scripts_pass ev messageId m) then map hide_html_block (blocks m) else blocks m)"

definition after_loop :: "env \<Rightarrow> message_dom \<Rightarrow> pass \<times> code_block list \<Rightarrow> pass \<times> code_block list" where
  "after_loop ev m r = (if processedByEmberJs (fst r) then r else (direct_html ev m (fst r), snd r))"

definition processMessage :: "env \<Rightarrow> int \<Rightarrow> message_dom \<Rightarrow> pass \<times> code_block list" where
  "processMessage ev messageId m =
     (if text_element_present m \<and> \<not> has_frame_or_editor m
      then after_loop ev m
             (processCodeBlocks ev messageId (loop_start ev messageId m) (loop_blocks ev messageId m))
      else (new_pass, blocks m))"


text \<open>
  A block reaches the ledger when the classifier takes it for code, it is not marked as
  processed and its text is not empty. The fingerprint under which the ledger knows a block
  and a context is that of the trimmed code.
\<close>

definition reaches_ledger :: "code_block \<Rightarrow> bool" where
  "reaches_ledger b =
     (isJavaScript (detectJavaScriptContent (className b) (trim (innerText b)))
      \<and> emberProcessed b \<noteq> Some ''true''
      \<and> trim (trim (innerText b)) \<noteq> [])"

definition block_key :: "code_block \<Rightarrow> string" where
  "block_key b = hash_key (trim (javascriptCode_of b))"

definition context_key :: "exec_context \<Rightarrow> string" where
  "context_key c = hash_key (trim (ctx_code c))"

definition marked_duplicate :: "code_block \<Rightarrow> bool" where
  "marked_duplicate b = (emberProcessed b = Some ''duplicate'' \<and> pre_display b = ''none'')"


text \<open>Example inputs: a block of the script language, a message of such blocks, an environment.\<close>

definition js_block :: "string \<Rightarrow> code_block" where
  "js_block t =
     \<lparr>className = ''language-javascript'', innerText = t, emberProcessed = None, pre_display = []\<rparr>"

definition message_of :: "code_block list \<Rightarrow> message_dom" where
  "message_of bs =
     \<lparr>text_element_present = True, has_frame_or_editor = False, genericHtmlRendered = False,
      is_user = False, mes = None, mes_scripts = [], blocks = bs\<rparr>"

text \<open>
  An environment in which the engine rejects the text \<open>(\<close> as a function body, every library
  is served, the clock reads the same millisecond every time, and the settings are the
  defaults of the extension.
\<close>

definition example_env :: env where
  "example_env =
     \<lparr>syntax_ok = (\<lambda>code. code \<noteq> ''(''),
      fetch = (\<lambda>url. Some ''/* library */''),
      now = (\<lambda>k. 1700000000000),
      origin = ''http://localhost:8000'',
      directHtmlEnabled = True,
      directHtmlProcessingMode = ''both''\<rparr>"

text \<open>
  What a pass keeps true of its contexts: their fingerprints are pairwise different and all in
  the ledger; the code of each of them passed the syntax check.
\<close>

text \<open>The same environment with a clock that advances by one millisecond at every reading.\<close>

definition ticking_env :: env where
  "ticking_env = example_env\<lparr>now := (\<lambda>k. 1700000000000 + int k)\<rparr>"



definition pass_inv :: "pass \<Rightarrow> bool" where
  "pass_inv p =
     (distinct (map context_key (contexts p))
      \<and> set (map context_key (contexts p)) \<subseteq> set (ledger p))"



section \<open>Message Processor of main.js\<close>






text \<open>An alias is known when the registry has it.\<close>

definition known_alias :: "string \<Rightarrow> bool" where
  "known_alias a = (map_of BUILT_IN_LIBRARIES a \<noteq> None)"

text \<open>A block of the script language with an empty frontmatter, for the examples.\<close>

definition frontmatter_block :: "string \<Rightarrow> code_block" where
  "frontmatter_block code = js_block (''---\<newline>---\<newline>'' @ code)"

section \<open>Patterns built at run time\<close>

text \<open>
  \<open>new RegExp(pattern, flags)\<close>: the text of a pattern is read into the regular expression it
  denotes. The reader covers the pattern syntax that the sources build: pattern characters,
  the escapes, classes, the assertions, groups, alternation and the quantifiers \<open>*\<close>, \<open>+\<close> and
  \<open>?\<close>. It is None for a text that is not a pattern, and for the constructs it does not cover
  (braced quantifiers, lookaround, named groups, back references).
\<close>

definition syntax_chars :: string where
  "syntax_chars = ''^$'' @ [CHR 0x5C] @ ''.*+?()[]{}|''"

definition digit_chars :: string where
  "digit_chars = ''0123456789''"

datatype quantifier = QStar | QPlus | QOpt

datatype token =
  TAtom regex bool
| TQuant quantifier bool
| TOpen
| TOpenNC
| TClose
| TBar

text \<open>
  The Boolean of an atom tells whether a quantifier may follow it (not after an assertion);
  the Boolean of a quantifier is True for the greedy one. What a backslash and the character
  after it denote outside a class:
\<close>

definition escape_atom :: "char \<Rightarrow> token option" where
  "escape_atom c =
     (if c \<in> set syntax_chars \<or> c = CHR ''/'' then Some (TAtom (re_chr c) True)
      else if c = CHR ''d'' then Some (TAtom (Cls False digit_chars) True)
      else if c = CHR ''D'' then Some (TAtom (Cls True digit_chars) True)
      else if c = CHR ''s'' then Some (TAtom (Cls False space_chars) True)
      else if c = CHR ''S'' then Some (TAtom (Cls True space_chars) True)
      else if c = CHR ''w'' then Some (TAtom (Cls False word_chars) True)
      else if c = CHR ''W'' then Some (TAtom (Cls True word_chars) True)
      else if c = CHR ''b'' then Some (TAtom WordB False)
      else if c = CHR ''n'' then Some (TAtom (re_chr (CHR 0x0A)) True)
      else if c = CHR ''r'' then Some (TAtom (re_chr (CHR 0x0D)) True)
      else if c = CHR ''t'' then Some (TAtom (re_chr (CHR 0x09)) True)
      else if c = CHR ''f'' then Some (TAtom (re_chr (CHR 0x0C)) True)
      else if c = CHR ''v'' then Some (TAtom (re_chr (CHR 0x0B)) True)
      else None)"

text \<open>
  Inside a class: the characters that the escape adds to the class, and the sets whose
  complement it adds.
\<close>

definition escape_class :: "char \<Rightarrow> (string \<times> string list) option" where
  "escape_class c =
     (if c \<in> set syntax_chars \<or> c = CHR ''/'' \<or> c = CHR ''-'' then Some ([c], [])
      else if c = CHR ''d'' then Some (digit_chars, [])
      else if c = CHR ''D'' then Some ([], [digit_chars])
      else if c = CHR ''s'' then Some (space_chars, [])
      else if c = CHR ''S'' then Some ([], [space_chars])
      else if c = CHR ''w'' then Some (word_chars, [])
      else if c = CHR ''W'' then Some ([], [word_chars])
      else if c = CHR ''b'' then Some ([CHR 0x08], [])
      else if c = CHR ''n'' then Some ([CHR 0x0A], [])
      else if c = CHR ''r'' then Some ([CHR 0x0D], [])
      else if c = CHR ''t'' then Some ([CHR 0x09], [])
      else if c = CHR ''f'' then Some ([CHR 0x0C], [])
      else if c = CHR ''v'' then Some ([CHR 0x0B], [])
      else None)"

definition class_token :: "bool \<Rightarrow> string \<Rightarrow> string list \<Rightarrow> token option" where
  "class_token neg members complements =
     (if complements = [] then Some (TAtom (Cls neg members) True)
      else if neg then None
      else Some (TAtom (re_alt ((if members = [] then [] else [Cls False members])
                                  @ map (Cls True) complements)) True))"

definition char_range :: "char \<Rightarrow> char \<Rightarrow> string" where
  "char_range lo hi = map char_of [of_char lo ..< Suc (of_char hi)]"

datatype mode = Normal | InClass bool string "string list"

fun tokenize :: "bool \<Rightarrow> mode \<Rightarrow> string \<Rightarrow> token list option" where
  "tokenize dotAll Normal [] = Some []"
| "tokenize dotAll (InClass neg members complements) [] = None"
| "tokenize dotAll Normal (c # cs) =
     (if c = CHR 0x5C then
        (case cs of
           [] \<Rightarrow> None
         | e # rest \<Rightarrow>
             (case escape_atom e of
                None \<Rightarrow> None
              | Some t \<Rightarrow> map_option ((#) t) (tokenize dotAll Normal rest)))
      else if c = CHR ''['' then
        (case cs of
           [] \<Rightarrow> None
         | e # rest \<Rightarrow>
             if e = CHR ''^'' then tokenize dotAll (InClass True [] []) rest
             else tokenize dotAll (InClass False [] []) (e # rest))
      else if c = CHR ''('' then
        (case cs of
           [] \<Rightarrow> None
         | e # rest \<Rightarrow>
             if e = CHR ''?'' then
               (case rest of
                  [] \<Rightarrow> None
                | k # rest' \<Rightarrow>
                    if k = CHR '':'' then map_option ((#) TOpenNC) (tokenize dotAll Normal rest')
                    else None)
             else map_option ((#) TOpen) (tokenize dotAll Normal (e # rest)))
      else if c = CHR '')'' then map_option ((#) TClose) (tokenize dotAll Normal cs)
      else if c = CHR ''|'' then map_option ((#) TBar) (tokenize dotAll Normal cs)
      else if c = CHR ''*'' \<or> c = CHR ''+'' \<or> c = CHR ''?'' then
        (let q = (if c = CHR ''*'' then QStar else if c = CHR ''+'' then QPlus else QOpt) in
         case cs of
           [] \<Rightarrow> Some [TQuant q True]
         | e # rest \<Rightarrow>
             if e = CHR ''?'' then map_option ((#) (TQuant q False)) (tokenize dotAll Normal rest)
             else map_option ((#) (TQuant q True)) (tokenize dotAll Normal (e # rest)))
      else if c = CHR ''{'' then None
      else if c = CHR ''^'' then map_option ((#) (TAtom BOL False)) (tokenize dotAll Normal cs)
      else if c = CHR ''$'' then map_option ((#) (TAtom EOL False)) (tokenize dotAll Normal cs)
      else if c = CHR ''.'' then
        map_option ((#) (TAtom (if dotAll then re_any else re_dot) True)) (tokenize dotAll Normal cs)
      else map_option ((#) (TAtom (re_chr c) True)) (tokenize dotAll Normal cs))"
| "tokenize dotAll (InClass neg members complements) (c # cs) =
     (if c = CHR '']'' then
        (case class_token neg members complements of
           None \<Rightarrow> None
         | Some t \<Rightarrow> map_option ((#) t) (tokenize dotAll Normal cs))
      else if c = CHR 0x5C then
        (case cs of
           [] \<Rightarrow> None
         | e # rest \<Rightarrow>
             (case escape_class e of
                None \<Rightarrow> None
              | Some (ms, ns) \<Rightarrow>
                  tokenize dotAll (InClass neg (members @ ms) (complements @ ns)) rest))
      else
        (case cs of
           [] \<Rightarrow> None
         | d # rest \<Rightarrow>
             if d = CHR ''-'' then
               (case rest of
                  [] \<Rightarrow> None
                | hi # rest' \<Rightarrow>
                    if hi = CHR '']'' then
                      tokenize dotAll (InClass neg (members @ [c]) complements) (d # rest)
                    else if hi = CHR 0x5C then None
                    else if (of_char hi :: nat) < of_char c then None
                    else tokenize dotAll (InClass neg (members @ char_range c hi) complements) rest')
             else tokenize dotAll (InClass neg (members @ [c]) complements) (d # rest)))"

text \<open>
  The tokens are put together with a stack of open groups. A frame holds the number of its
  group (None when it does not capture), the alternatives that are complete and the items of
  the alternative that is being read, both latest first.
\<close>

type_synonym frame = "nat option \<times> regex list \<times> (regex \<times> bool) list"

definition close_frame :: "frame \<Rightarrow> regex" where
  "close_frame f =
     (case f of (g, done, items) \<Rightarrow>
        (let body = re_alt (rev (re_seq (rev (map fst items)) # done))
         in case g of None \<Rightarrow> body | Some n \<Rightarrow> Group n body))"

definition quantify :: "quantifier \<Rightarrow> bool \<Rightarrow> regex \<Rightarrow> regex" where
  "quantify q greedy r =
     (case q of QStar \<Rightarrow> Star greedy r | QPlus \<Rightarrow> Seq r (Star greedy r) | QOpt \<Rightarrow> Opt greedy r)"

fun parse_tokens :: "token list \<Rightarrow> frame list \<Rightarrow> nat \<Rightarrow> regex option" where
  "parse_tokens [] fs n = (case fs of [f] \<Rightarrow> Some (close_frame f) | _ \<Rightarrow> None)"
| "parse_tokens (t # ts) [] n = None"
| "parse_tokens (TAtom a q # ts) ((g, done, items) # fs) n =
     parse_tokens ts ((g, done, (a, q) # items) # fs) n"
| "parse_tokens (TQuant q greedy # ts) ((g, done, items) # fs) n =
     (case items of
        [] \<Rightarrow> None
      | (x, quantifiable) # xs \<Rightarrow>
          if quantifiable
          then parse_tokens ts ((g, done, (quantify q greedy x, False) # xs) # fs) n
          else None)"
| "parse_tokens (TBar # ts) ((g, done, items) # fs) n =
     parse_tokens ts ((g, re_seq (rev (map fst items)) # done, []) # fs) n"
| "parse_tokens (TOpen # ts) (f # fs) n = parse_tokens ts ((Some n, [], []) # f # fs) (Suc n)"
| "parse_tokens (TOpenNC # ts) (f # fs) n = parse_tokens ts ((None, [], []) # f # fs) n"
| "parse_tokens (TClose # ts) (f # fs) n =
     (case fs of
        [] \<Rightarrow> None
      | (g, done, items) # fs' \<Rightarrow>
          parse_tokens ts ((g, done, (close_frame f, True) # items) # fs') n)"

definition new_RegExp :: "string \<Rightarrow> bool \<Rightarrow> regex option" where
  "new_RegExp pattern dotAll =
     (case tokenize dotAll Normal pattern of
        None \<Rightarrow> None
      | Some ts \<Rightarrow> parse_tokens ts [(None, [], [])] 1)"

text \<open>
  \<open>escapeRegExp\<close>: \<open>string.replace(/[.*+?^${}()|[\]\\]/g, '\\$&')\<close>, every match of the class
  replaced by a backslash and the match.
\<close>

definition regexp_specials :: string where
  "regexp_specials = ''.*+?^${}()|[]'' @ [CHR 0x5C]"

definition escapeRegExp :: "string \<Rightarrow> string" where
  "escapeRegExp s =
     concat (map (\<lambda>p. case p of Matched m \<Rightarrow> CHR 0x5C # m | Unmatched u \<Rightarrow> u)
       (pieces (Cls False regexp_specials) [] s 0))"

text \<open>\<open>text.indexOf(sub)\<close>: the first position at which \<open>sub\<close> occurs, None for the source's -1.\<close>

fun index_of :: "string \<Rightarrow> string \<Rightarrow> nat option" where
  "index_of [] sub = (if sub = [] then Some 0 else None)"
| "index_of (c # cs) sub =
     (if startsWith (c # cs) sub then Some 0 else map_option Suc (index_of cs sub))"

section \<open>Repair Loop\<close>

text \<open>
  \<open>text.replace(pattern, replacement)\<close> with a string pattern: the first occurrence of the
  pattern is replaced, and in the replacement \<open>$$\<close> stands for \<open>$\<close>, \<open>$&\<close> for the matched text,
  \<open>$`\<close> for the text before the match and \<open>$'\<close> for the text after it (a string pattern has
  no groups, so \<open>$1\<close> and the like stay as they are).
\<close>

fun expand_replacement :: "string \<Rightarrow> string \<Rightarrow> string \<Rightarrow> string \<Rightarrow> string" where
  "expand_replacement [] matched_text prev rest = []"
| "expand_replacement [c] matched_text prev rest = [c]"
| "expand_replacement (c # d # cs) matched_text prev rest =
     (if c = CHR ''$'' \<and> d = CHR ''$'' then CHR ''$'' # expand_replacement cs matched_text prev rest
      else if c = CHR ''$'' \<and> d = CHR ''&'' then matched_text @ expand_replacement cs matched_text prev rest
      else if c = CHR ''$'' \<and> d = CHR 0x60 then prev @ expand_replacement cs matched_text prev rest
      else if c = CHR ''$'' \<and> d = CHR 0x27 then rest @ expand_replacement cs matched_text prev rest
      else c # expand_replacement (d # cs) matched_text prev rest)"

definition replace_string :: "string \<Rightarrow> string \<Rightarrow> string \<Rightarrow> string" where
  "replace_string s pattern replacement =
     (case index_of s pattern of
        None \<Rightarrow> s
      | Some i \<Rightarrow>
          take i s
            @ expand_replacement replacement pattern (take i s) (drop (i + length pattern) s)
            @ drop (i + length pattern) s)"

text \<open>
  The patterns of \<open>attemptSelfHeal\<close>: the two literals, and the texts of the two patterns that
  it builds around the escaped code and gives to \<open>new RegExp\<close> with the flag \<open>s\<close>.
\<close>

definition healFence_re :: regex where
  "healFence_re =
     re_seq [re_lit ''```javascript'', Star True re_space, Group 1 (Star False re_any),
       Star True re_space, re_lit ''```'']"

definition originalFrontmatter_re :: regex where
  "originalFrontmatter_re =
     re_seq [BOL, re_lit ''---'', Star True re_space, Group 1 (Star False re_any),
       Star True re_space, re_lit ''---'']"

definition block_pattern :: "string \<Rightarrow> string" where
  "block_pattern originalCode =
     ''(```javascript'' @ [CHR 0x5C] @ ''s*'' @ escapeRegExp originalCode
       @ [CHR 0x5C] @ ''s*```)''"

definition markdown_pattern :: "string \<Rightarrow> string" where
  "markdown_pattern fullOriginalBlock =
     ''(---'' @ [CHR 0x5C] @ ''s*['' @ [CHR 0x5C] @ ''s'' @ [CHR 0x5C] @ ''S]*?'' @ [CHR 0x5C]
       @ ''s*---'' @ [CHR 0x5C] @ ''s*)?'' @ escapeRegExp fullOriginalBlock"

text \<open>
  What one invocation finds around it: the heal button of the message (None when there is
  none, otherwise whether it spins), the answer of the repair service (on the left the
  message of the error when the request fails or the response is not ok), the persisted
  source \<open>chat[messageId].mes\<close> (None when the message is not in the chat), whether the message
  has a \<open>pre\<close> marked as processed, the code texts of its other \<open>pre\<close> elements, and whether its
  text element is there. What it leaves: the persisted source, whether the message was
  rendered again, the alerts shown, and the heal button.
\<close>

record heal_world =
  healButton :: "bool option"
  response :: "string + string"
  chat_mes :: "string option"
  processed_pre :: bool
  pre_codes :: "string list"
  mes_text_present :: bool

record heal_outcome =
  new_mes :: "string option"
  rerendered :: bool
  alerts :: "string list"
  button_after :: "bool option"

text \<open>\<open>codeMatch ? codeMatch[1].trim() : correctedText.trim()\<close>\<close>

definition correctedCode_of :: "string \<Rightarrow> string" where
  "correctedCode_of correctedText =
     (case regex_exec healFence_re correctedText of
        None \<Rightarrow> trim correctedText
      | Some codeMatch \<Rightarrow> trim (case match_group codeMatch 1 of Some g \<Rightarrow> g | None \<Rightarrow> []))"

definition correctedMarkdown_of :: "string \<Rightarrow> string \<Rightarrow> string" where
  "correctedMarkdown_of originalCode correctedCode =
     (case regex_exec originalFrontmatter_re originalCode of
        Some fm \<Rightarrow> trim (matched fm) @ [CHR 0x0A]
      | None \<Rightarrow> ''---'' @ [CHR 0x0A] @ ''---'' @ [CHR 0x0A])
     @ [CHR 0x0A] @ ''```javascript'' @ [CHR 0x0A] @ correctedCode @ [CHR 0x0A] @ ''```''"

text \<open>
  The \<open>try\<close> block: the new source and whether the message is rendered again, or on the left
  the message of the error thrown. A pattern that \<open>new RegExp\<close> rejects throws \<open>SyntaxError\<close>.
\<close>

definition heal_failed :: "string \<Rightarrow> string \<Rightarrow> string" where
  "heal_failed messageId err = ''Ember Self-Heal failed for message '' @ messageId @ '': '' @ err"

definition apply_fix :: "heal_world \<Rightarrow> string \<Rightarrow> string \<Rightarrow> string \<Rightarrow> string + (string option \<times> bool \<times> string list)" where
  "apply_fix w messageId originalCode correctedCode =
     (case chat_mes w of
        None \<Rightarrow> Inl (''Message '' @ messageId @ '' not found in chat context.'')
      | Some source \<Rightarrow>
          if \<not> processed_pre w \<and> \<not> list_ex (\<lambda>code. trim code = trim originalCode) (pre_codes w)
          then Inl (''Could not find the original code block for message '' @ messageId
                      @ '' to replace.'')
          else
            (let correctedMarkdown = correctedMarkdown_of originalCode correctedCode
             in case new_RegExp (block_pattern originalCode) True of
                  None \<Rightarrow> Inl ''Invalid regular expression''
                | Some blockRe \<Rightarrow>
                    (case regex_exec blockRe source of
                       None \<Rightarrow> Inl ''Could not find the original code block markdown in message text.''
                     | Some originalMarkdownBlockMatch \<Rightarrow>
                         (let fullOriginalBlock =
                                (case match_group originalMarkdownBlockMatch 1 of
                                   Some g \<Rightarrow> g | None \<Rightarrow> [])
                          in case new_RegExp (markdown_pattern fullOriginalBlock) True of
                               None \<Rightarrow> Inl ''Invalid regular expression''
                             | Some markdownRe \<Rightarrow>
                                 (case regex_exec markdownRe source of
                                    None \<Rightarrow>
                                      Inl ''Could not find original markdown block structure in message text.''
                                  | Some found \<Rightarrow>
                                      (let edited = replace_string source (matched found) correctedMarkdown
                                       in if mes_text_present w then Inr (Some edited, True, [])
                                          else Inr (Some edited, False,
                                                 [''Ember: Message content updated in chat, but DOM element not found to re-render.''])))))))"

definition attemptSelfHeal :: "heal_world \<Rightarrow> string \<Rightarrow> string \<Rightarrow> string \<Rightarrow> heal_outcome" where
  "attemptSelfHeal w messageId originalCode errorMessage =
     (if healButton w = Some True
      then \<lparr>new_mes = chat_mes w, rerendered = False, alerts = [], button_after = healButton w\<rparr>
      else
        (let stopped = map_option (\<lambda>_. False) (healButton w)
         in case response w of
              Inl err \<Rightarrow>
                \<lparr>new_mes = chat_mes w, rerendered = False,
                 alerts = [heal_failed messageId err], button_after = stopped\<rparr>
            | Inr correctedText \<Rightarrow>
                (let correctedCode = correctedCode_of correctedText
                 in if correctedCode \<noteq> [] \<and> trim correctedCode \<noteq> trim originalCode
                    then (case apply_fix w messageId originalCode correctedCode of
                            Inl err \<Rightarrow>
                              \<lparr>new_mes = chat_mes w, rerendered = False,
                               alerts = [heal_failed messageId err], button_after = stopped\<rparr>
                          | Inr (source, again, shown) \<Rightarrow>
                              \<lparr>new_mes = source, rerendered = again, alerts = shown,
                               button_after = stopped\<rparr>)
                    else \<lparr>new_mes = chat_mes w, rerendered = False, alerts = [],
                          button_after = stopped\<rparr>)))"

text \<open>An invocation for the examples: a message that is one code block, and its repair.\<close>

definition heal_example :: "string \<Rightarrow> heal_world" where
  "heal_example answer =
     \<lparr>healButton = Some False, response = Inr answer,
      chat_mes = Some (''```javascript'' @ [CHR 0x0A] @ ''a()'' @ [CHR 0x0A] @ ''```''),
      processed_pre = True, pre_codes = [], mes_text_present = True\<rparr>"

section \<open>Properties of the Message Router\<close>

lemma querySelector_modify_first:
  "querySelector (modify_first g k es) f =
     (if f = g then map_option k (querySelector es f) else querySelector es f)"
  by (induction es) auto











lemma fresh_host_recorded: "shown_height f (fresh_host g) \<le> recorded_max f (fresh_host g)"
  by (simp add: shown_height_def recorded_max_def fresh_host_def)

text \<open>
  The processor of main.js never gets as far as a container: every turn of its loop leaves the
  contexts and the page as they were, and a block with a frontmatter and code ends the pass
  with the error thrown by \<open>Object.assign\<close>.
\<close>

lemma Object_assign_dataset:
  "Object_assign [] [(k1, v1), (k2, v2), (''dataset'', v)] \<noteq> Inr el"
  by (simp add: getter_only_def)





















lemma modify_first_idem:
  assumes "\<And>v. g (g v) = g v"
  shows "modify_first f g (modify_first f g es) = modify_first f g es"
  by (induction es) (auto simp: assms)

lemma on_success_twice: "fst (on_success (fst (on_success h e)) e) = fst (on_success h e)"
  by (simp add: on_success_def Let_def modify_first_idem)

lemma on_error_twice: "fst (on_error (fst (on_error h e)) e) = fst (on_error h e)"
  by (auto simp: on_error_def Let_def modify_first_idem querySelector_modify_first
      split: option.splits)

lemma visible_on_success:
  "visible (frameId e) (fst (on_success h e)) =
     (map_option (\<lambda>_. ''none'') (querySelector (loadingContainers h) (frameId e)),
      map_option (\<lambda>_. ''block'') (querySelector (emberContainers h) (frameId e)))"
  by (simp add: visible_def on_success_def Let_def querySelector_modify_first
      option.map_comp comp_def)

lemma visible_on_error:
  assumes "querySelector (loadingContainers h) (frameId e) \<noteq> None"
  shows "visible (frameId e) (fst (on_error h e)) =
     (Some ''flex'', map_option (\<lambda>_. ''none'') (querySelector (emberContainers h) (frameId e)))"
  using assms
  by (auto simp: visible_def on_error_def Let_def querySelector_modify_first
      option.map_comp comp_def split: option.splits)

lemma on_success_again: "on_success (fst (on_success h e)) e = on_success h e"
  by (simp add: on_success_def Let_def modify_first_idem)

lemma on_error_again: "on_error (fst (on_error h e)) e = on_error h e"
  by (auto simp: on_error_def Let_def modify_first_idem querySelector_modify_first
      split: option.splits)

lemma on_error_panel:
  assumes "querySelector (loadingContainers h) (frameId e) \<noteq> None"
  shows "querySelector (loadingContainers (fst (on_error h e))) (frameId e)
           = Some \<lparr>innerHTML = error_html (message e), style_color = ''var(--text-color-error)'',
                   style_display = ''flex''\<rparr>
       \<and> map_option final_display (querySelector (emberContainers (fst (on_error h e))) (frameId e))
           = map_option (\<lambda>_. ''none'') (querySelector (emberContainers h) (frameId e))
       \<and> snd (on_error h e)
           = (case processedCode h (msgIdErr (frameId e)) of
                None \<Rightarrow> []
              | Some code \<Rightarrow>
                  if startsWith (message e) ''Ember Execution Error:''
                  then [AttemptSelfHeal (msgIdErr (frameId e)) code (message e)] else [])"
  using assms
  by (auto simp: on_error_def Let_def querySelector_modify_first option.map_comp comp_def
      split: option.splits)

lemma on_error_absent:
  assumes "querySelector (loadingContainers h) (frameId e) = None"
  shows "on_error h e = (h, [])"
  using assms by (simp add: on_error_def)

lemma visible_elsewhere:
  assumes "g \<noteq> frameId e"
  shows "visible g (fst (on_success h e)) = visible g h"
    and "visible g (fst (on_error h e)) = visible g h"
  using assms
  by (auto simp: visible_def on_success_def on_error_def Let_def querySelector_modify_first
      split: option.splits)

text \<open>
  C8 (a success or error report after a terminal state), as the code has it. The listeners
  keep no record of a terminal state and test none: a success or error report is handled by
  the same rule whatever was handled before, and both listeners have the same rule. A success
  report hides the loading indicator of its identifier and shows the output container, those
  that exist, and requests nothing. An error report for an identifier that no loading
  container carries does nothing at all. Otherwise it writes the first line of its message
  into the loading indicator, shows the indicator in the error colour, hides the output
  container and, when the message starts with \<open>Ember Execution Error:\<close> and the processed code
  element of the message exists, requests the Repair Loop. Handling a report a second time
  leaves the page as the first handling left it and requests the same once more. The display
  of the contexts with other identifiers is not touched.
\<close>

theorem terminal_report_handling:
  assumes "msg_type e = ''ember-success'' \<or> msg_type e = ''ember-error''"
  shows "messageListener_main h e = messageListener h e
       \<and> messageListener (fst (messageListener h e)) e = messageListener h e
       \<and> (msg_type e = ''ember-success'' \<longrightarrow>
            snd (messageListener h e) = []
            \<and> visible (frameId e) (fst (messageListener h e)) =
                (map_option (\<lambda>_. ''none'') (querySelector (loadingContainers h) (frameId e)),
                 map_option (\<lambda>_. ''block'') (querySelector (emberContainers h) (frameId e))))
       \<and> (msg_type e = ''ember-error'' \<and> querySelector (loadingContainers h) (frameId e) = None \<longrightarrow>
            messageListener h e = (h, []))
       \<and> (msg_type e = ''ember-error'' \<and> querySelector (loadingContainers h) (frameId e) \<noteq> None \<longrightarrow>
            querySelector (loadingContainers (fst (messageListener h e))) (frameId e)
              = Some \<lparr>innerHTML = error_html (message e), style_color = ''var(--text-color-error)'',
                      style_display = ''flex''\<rparr>
            \<and> map_option final_display
                (querySelector (emberContainers (fst (messageListener h e))) (frameId e))
              = map_option (\<lambda>_. ''none'') (querySelector (emberContainers h) (frameId e))
            \<and> snd (messageListener h e)
              = (case processedCode h (msgIdErr (frameId e)) of
                   None \<Rightarrow> []
                 | Some code \<Rightarrow>
                     if startsWith (message e) ''Ember Execution Error:''
                     then [AttemptSelfHeal (msgIdErr (frameId e)) code (message e)] else []))
       \<and> (g \<noteq> frameId e \<longrightarrow> visible g (fst (messageListener h e)) = visible g h)"
proof -
  from assms have pre: "startsWith (msg_type e) ''ember-''"
    by (auto simp: startsWith_def)
  from assms show ?thesis
  proof
    assume s: "msg_type e = ''ember-success''"
    with pre have l: "messageListener k e = on_success k e" "messageListener_main k e = on_success k e" for k
      by (simp_all add: messageListener_def messageListener_main_def)
    have "snd (on_success h e) = []"
      by (simp add: on_success_def Let_def)
    with s show ?thesis
      unfolding l
      by (simp add: on_success_again visible_on_success visible_elsewhere)
  next
    assume r: "msg_type e = ''ember-error''"
    with pre have l: "messageListener k e = on_error k e" "messageListener_main k e = on_error k e" for k
      by (simp_all add: messageListener_def messageListener_main_def)
    from r show ?thesis
      unfolding l
      using on_error_panel[of h e] on_error_absent[of h e]
      by (simp add: on_error_again visible_elsewhere)
  qed
qed

theorem terminal_report_witness:
  "messageListener
     (fst (messageListener
        ((fresh_host ''ember-frame-3-codeblock-1700000000000'')\<lparr>processedCode := [''3'' \<mapsto> ''a()'']\<rparr>)
        (error_report ''ember-frame-3-codeblock-1700000000000''
           ''Ember Execution Error: x is not defined'')))
     (error_report ''ember-frame-3-codeblock-1700000000000''
        ''Ember Execution Error: x is not defined'')
   = messageListener
       ((fresh_host ''ember-frame-3-codeblock-1700000000000'')\<lparr>processedCode := [''3'' \<mapsto> ''a()'']\<rparr>)
       (error_report ''ember-frame-3-codeblock-1700000000000''
          ''Ember Execution Error: x is not defined'')
   \<and> snd (messageListener
       ((fresh_host ''ember-frame-3-codeblock-1700000000000'')\<lparr>processedCode := [''3'' \<mapsto> ''a()'']\<rparr>)
       (error_report ''ember-frame-3-codeblock-1700000000000''
          ''Ember Execution Error: x is not defined''))
     = [AttemptSelfHeal ''3'' ''a()'' ''Ember Execution Error: x is not defined'']"
proof -
  let ?h = "(fresh_host ''ember-frame-3-codeblock-1700000000000'')\<lparr>processedCode := [''3'' \<mapsto> ''a()'']\<rparr>"
  let ?e = "error_report ''ember-frame-3-codeblock-1700000000000''
              ''Ember Execution Error: x is not defined''"
  have t: "msg_type ?e = ''ember-success'' \<or> msg_type ?e = ''ember-error''"
    by (simp add: error_report_def)
  have c: "querySelector (loadingContainers ?h) (frameId ?e) \<noteq> None"
    by (simp add: error_report_def fresh_host_def)
  have m: "msgIdErr (frameId ?e) = ''3''"
    by (simp add: error_report_def msgIdErr_def)
  from terminal_report_handling[OF t, of ?h] c
  have "messageListener (fst (messageListener ?h ?e)) ?e = messageListener ?h ?e"
    and "snd (messageListener ?h ?e)
      = (case processedCode ?h (msgIdErr (frameId ?e)) of
           None \<Rightarrow> []
         | Some code \<Rightarrow>
             if startsWith (message ?e) ''Ember Execution Error:''
             then [AttemptSelfHeal (msgIdErr (frameId ?e)) code (message ?e)] else [])"
    by (simp_all add: error_report_def)
  then show ?thesis
    unfolding m by (simp add: error_report_def startsWith_def)
qed

text \<open>
  An error report that arrives after the success report of the same context is not a no-op:
  the context showed its output, and afterwards shows the error panel with the output hidden.
  The bootstrap sends such a report when user code calls \<open>ember.inject\<close> without a string
  content at any later time.
\<close>

theorem error_after_success_changes_ui:
  \<open>visible ''ember-frame-3-codeblock-1700000000000''
     (fst (messageListener (fresh_host ''ember-frame-3-codeblock-1700000000000'')
        (success_report ''ember-frame-3-codeblock-1700000000000'')))
     = (Some ''none'', Some ''block'') \<and>
   visible ''ember-frame-3-codeblock-1700000000000''
     (fst (messageListener
        (fst (messageListener (fresh_host ''ember-frame-3-codeblock-1700000000000'')
           (success_report ''ember-frame-3-codeblock-1700000000000'')))
        (error_report ''ember-frame-3-codeblock-1700000000000''
           ''Ember Internal Error: ember.inject called with invalid options. 'content' (string) is required.'')))
     = (Some ''flex'', Some ''none'')\<close>
  by (simp add: messageListener_def on_success_def on_error_def success_report_def
      error_report_def fresh_host_def visible_def startsWith_def Let_def msgIdErr_def)

section \<open>Properties of the Content Classifier\<close>

text \<open>\<open>includes\<close> is the substring test.\<close>

lemma startsWith_iff: "startsWith s p \<longleftrightarrow> (\<exists>post. s = p @ post)"
proof
  assume "startsWith s p"
  then have "s = p @ drop (length p) s"
    by (metis append_take_drop_id startsWith_def)
  then show "\<exists>post. s = p @ post" ..
next
  assume "\<exists>post. s = p @ post"
  then show "startsWith s p"
    by (auto simp: startsWith_def)
qed

lemma str_includes_iff: "str_includes s sub \<longleftrightarrow> (\<exists>pre post. s = pre @ sub @ post)"
proof (induction s)
  case Nil
  show ?case by auto
next
  case (Cons c cs)
  show ?case
  proof
    assume "str_includes (c # cs) sub"
    then consider "startsWith (c # cs) sub" | "str_includes cs sub" by auto
    then show "\<exists>pre post. c # cs = pre @ sub @ post"
    proof cases
      case 1
      then obtain post where "c # cs = sub @ post" by (auto simp: startsWith_iff)
      then have "c # cs = [] @ sub @ post" by simp
      then show ?thesis by blast
    next
      case 2
      with Cons.IH obtain pre post where "cs = pre @ sub @ post" by blast
      then have "c # cs = (c # pre) @ sub @ post" by simp
      then show ?thesis by blast
    qed
  next
    assume "\<exists>pre post. c # cs = pre @ sub @ post"
    then obtain pre post where e: "c # cs = pre @ sub @ post" by blast
    show "str_includes (c # cs) sub"
    proof (cases pre)
      case Nil
      with e have "startsWith (c # cs) sub" by (auto simp: startsWith_iff)
      then show ?thesis by simp
    next
      case (Cons d pre')
      with e have "cs = pre' @ sub @ post" by simp
      with Cons.IH have "str_includes cs sub" by blast
      then show ?thesis by simp
    qed
  qed
qed

lemma lang_js_includes_js: "str_includes cn ''lang-js'' \<Longrightarrow> str_includes cn ''js''"
proof -
  assume "str_includes cn ''lang-js''"
  then obtain pre post where "cn = pre @ ''lang-js'' @ post"
    by (auto simp: str_includes_iff)
  then have "cn = (pre @ ''lang-'') @ ''js'' @ post" by simp
  then show ?thesis
    unfolding str_includes_iff by blast
qed

text \<open>
  The two tests on the start of the text, read off the patterns. A pattern that opens with \<open>^\<close>
  matches at the start of the text or nowhere; \<open>\s*\<close> before an item that no white space can
  open takes all the white space there is.
\<close>

lemma exec_from_BOL: "prev \<noteq> [] \<Longrightarrow> exec_from (Seq BOL r) prev s = None"
  by (induction s arbitrary: prev) simp_all

lemma regex_test_BOL: "regex_test (Seq BOL r) s \<longleftrightarrow> rmatch r ([], s, []) \<noteq> []"
  by (cases s) (simp_all add: regex_test_def regex_exec_def exec_from_BOL split: list.splits)

lemma star_space_then:
  assumes "\<And>c cs pv. is_space c \<Longrightarrow> rmatch r (pv, c # cs, caps) = []"
  shows "rmatch (Seq (Star True re_space) r) (prev, s, caps) = []
           \<longleftrightarrow> rmatch r (rev (takeWhile is_space s) @ prev, dropWhile is_space s, caps) = []"
proof (induction s arbitrary: prev)
  case Nil
  show ?case by (simp add: re_space_def)
next
  case (Cons c cs)
  show ?case
  proof (cases "is_space c")
    case True
    have "rmatch (Seq (Star True re_space) r) (prev, c # cs, caps)
        = rmatch (Seq (Star True re_space) r) (c # prev, cs, caps) @ rmatch r (prev, c # cs, caps)"
      using True by (simp add: re_space_def is_space_def)
    with assms[OF True] Cons.IH[of "c # prev"] True show ?thesis by simp
  next
    case False
    then show ?thesis by (simp add: re_space_def is_space_def)
  qed
qed

lemma class_then:
  "rmatch (Seq (Cls neg ms) t) (pv, c # cs, caps)
     = (if (c \<in> set ms) \<noteq> neg then rmatch t (c # pv, cs, caps) else [])"
  by simp

lemma brace_later:
  "rmatch (Seq (Star True (Cls True ''{'')) (Seq (re_chr CHR ''{'') Eps)) (pv, rest, caps) = []
     \<longleftrightarrow> CHR ''{'' \<notin> set rest"
proof (induction rest arbitrary: pv)
  case Nil
  show ?case by (simp add: re_chr_def)
next
  case (Cons c cs)
  show ?case
  proof (cases "c = CHR ''{''")
    case True
    then show ?thesis by (simp add: re_chr_def)
  next
    case False
    have "rmatch (Seq (Star True (Cls True ''{'')) (Seq (re_chr CHR ''{'') Eps)) (pv, c # cs, caps)
        = rmatch (Seq (Star True (Cls True ''{'')) (Seq (re_chr CHR ''{'') Eps)) (c # pv, cs, caps)"
      using False by (simp add: re_chr_def)
    with Cons.IH[of "c # pv"] False show ?thesis by simp
  qed
qed

lemma startsWithTag_plain:
  "regex_test startsWithTag_re code
     \<longleftrightarrow> (case dropWhile is_space code of
            c1 # c2 # _ \<Rightarrow> c1 = CHR ''<'' \<and> c2 \<in> set letters
          | _ \<Rightarrow> False)"
proof -
  let ?r = "Seq (re_chr CHR ''<'') (Seq (Cls False letters) Eps)"
  have no: "rmatch ?r (pv, c # cs, []) = []" if "is_space c" for c cs pv
    using that by (auto simp: re_chr_def is_space_def space_chars_def)
  have head: "rmatch ?r (pv, rest, []) \<noteq> []
      \<longleftrightarrow> (case rest of c1 # c2 # _ \<Rightarrow> c1 = CHR ''<'' \<and> c2 \<in> set letters | _ \<Rightarrow> False)" for pv rest
    by (auto simp: re_chr_def split: list.splits)
  have "regex_test startsWithTag_re code
      \<longleftrightarrow> rmatch (Seq (Star True re_space) ?r) ([], code, []) \<noteq> []"
    by (simp only: startsWithTag_re_def re_seq_def foldr.simps comp_def id_apply regex_test_BOL)
  also have "\<dots> \<longleftrightarrow> rmatch ?r (rev (takeWhile is_space code) @ [], dropWhile is_space code, []) \<noteq> []"
    using star_space_then[of ?r "[]" "[]" code, OF no] by blast
  finally show ?thesis
    by (simp only: head)
qed

lemma startsWithCssRule_plain:
  "regex_test startsWithCssRule_re code
     \<longleftrightarrow> (case dropWhile is_space code of
            [] \<Rightarrow> False
          | c # rest \<Rightarrow> c \<in> set (letters @ ''#.'') \<and> CHR ''{'' \<in> set rest)"
proof -
  let ?t = "Seq (Star True (Cls True ''{'')) (Seq (re_chr CHR ''{'') Eps)"
  let ?r = "Seq (Cls False (letters @ ''#.'')) ?t"
  have no: "rmatch ?r (pv, c # cs, []) = []" if "is_space c" for c cs pv
    using that by (auto simp: is_space_def space_chars_def letters_def)
  have head: "rmatch ?r (pv, rest, []) \<noteq> []
      \<longleftrightarrow> (case rest of [] \<Rightarrow> False
           | c # rest' \<Rightarrow> c \<in> set (letters @ ''#.'') \<and> CHR ''{'' \<in> set rest')" for pv rest
  proof (cases rest)
    case Nil
    then show ?thesis by simp
  next
    case (Cons c rest')
    show ?thesis
      unfolding Cons using brace_later[of "c # pv" rest' "[]"]
      by (simp only: class_then list.case) auto
  qed
  have "regex_test startsWithCssRule_re code
      \<longleftrightarrow> rmatch (Seq (Star True re_space) ?r) ([], code, []) \<noteq> []"
    by (simp only: startsWithCssRule_re_def re_seq_def foldr.simps comp_def id_apply regex_test_BOL)
  also have "\<dots> \<longleftrightarrow> rmatch ?r (rev (takeWhile is_space code) @ [], dropWhile is_space code, []) \<noteq> []"
    using star_space_then[of ?r "[]" "[]" code, OF no] by blast
  finally show ?thesis
    by (simp only: head)
qed

text \<open>Each pattern of the classifier at a text that has the signal and at one that has not.\<close>

lemma jsKeywords_examples:
  "regex_test jsKeywords_re ''return x'' \<and> \<not> regex_test jsKeywords_re ''returned''"
  by code_simp

lemma domManipulation_examples:
  "regex_test domManipulation_re ''document.body'' \<and> \<not> regex_test domManipulation_re ''documents''"
  by code_simp

lemma jsMethods_examples:
  "regex_test jsMethods_re ''a.push(1)'' \<and> \<not> regex_test jsMethods_re ''push(1)''"
  by code_simp

lemma arrowFunctions_examples:
  "regex_test arrowFunctions_re ''x=>(y)'' \<and> \<not> regex_test arrowFunctions_re ''x=>y''"
  by code_simp

lemma jsOperators_examples:
  "regex_test jsOperators_re ''a&&b'' \<and> \<not> regex_test jsOperators_re ''a&b''"
  by code_simp

lemma regexLiterals_examples:
  "regex_test regexLiterals_re ''/ab/g'' \<and> \<not> regex_test regexLiterals_re ''a/b''"
  by code_simp

lemma templateLiterals_examples:
  "regex_test templateLiterals_re [CHR 0x60, CHR ''$'', CHR ''{'', CHR ''x'', CHR ''}'', CHR 0x60]
   \<and> \<not> regex_test templateLiterals_re [CHR 0x60, CHR ''x'', CHR 0x60]"
  by code_simp

lemma signal_alternatives:
  "list_all (regex_test jsKeywords_re)
     [''const'', ''let'', ''var'', ''function'', ''class'', ''if'', ''else'', ''for'', ''while'',
      ''return'', ''new'', ''this'', ''try'', ''catch'', ''finally'', ''async'', ''await'',
      ''export'', ''import'']"
  "list_all (regex_test domManipulation_re)
     [''document.x'', ''window.x'', ''a.getElementById'', ''a.querySelector'',
      ''a.createElement'', ''a.appendChild'', ''a.addEventListener'']"
  "list_all (regex_test jsMethods_re)
     [''a.push'', ''a.pop'', ''a.map'', ''a.filter'', ''a.forEach'', ''a.reduce'', ''a.find'',
      ''a.some'', ''a.every'', ''console.log'', ''JSON.x'', ''Math.x'']"
  "list_all (regex_test jsOperators_re)
     [''==='', ''!=='', ''&&'', ''||'', ''...'', ''??'', ''?.'']"
  by code_simp+

text \<open>
  C9, as the code has it. The classifier looks for substrings in the fence class: a class
  that contains \<open>js\<close> (as \<open>lang-js\<close> does, and \<open>language-json\<close>) or \<open>javascript\<close> makes the
  fragment executable whatever its content. For a class that contains none of \<open>javascript\<close>,
  \<open>js\<close>, \<open>html\<close>, \<open>xml\<close> and \<open>css\<close>, the fragment is executable exactly when at least two of the
  seven patterns match somewhere in the text, the text does not begin, after white space, with
  \<open><\<close> and a letter, and it is not the case that the text begins, after white space, with a
  letter, \<open>#\<close> or \<open>.\<close> and has an opening brace anywhere after it (on the first line or on a
  later one). Each of the seven patterns matches a text with the signal it is named after and
  does not match one without it; every keyword, DOM access, method and operator that the
  patterns list is found when it stands alone.
\<close>

theorem content_based_detection:
  assumes "\<not> str_includes cn ''javascript''" and "\<not> str_includes cn ''js''"
    and "\<not> str_includes cn ''html''" and "\<not> str_includes cn ''xml''"
    and "\<not> str_includes cn ''css''"
  shows "isJavaScript (detectJavaScriptContent cn code) =
           (2 \<le> length (filter (\<lambda>r. regex_test r code)
                    [jsKeywords_re, domManipulation_re, jsMethods_re, arrowFunctions_re,
                     jsOperators_re, regexLiterals_re, templateLiterals_re])
            \<and> \<not> (case dropWhile is_space code of
                    c1 # c2 # _ \<Rightarrow> c1 = CHR ''<'' \<and> c2 \<in> set letters
                  | _ \<Rightarrow> False)
            \<and> \<not> (case dropWhile is_space code of
                    [] \<Rightarrow> False
                  | c # rest \<Rightarrow> c \<in> set (letters @ ''#.'') \<and> CHR ''{'' \<in> set rest))
       \<and> contentBasedScore (detectJavaScriptContent cn code)
           = length (filter (\<lambda>r. regex_test r code)
                    [jsKeywords_re, domManipulation_re, jsMethods_re, arrowFunctions_re,
                     jsOperators_re, regexLiterals_re, templateLiterals_re])
       \<and> (str_includes other ''js'' \<or> str_includes other ''javascript''
            \<longrightarrow> isJavaScript (detectJavaScriptContent other code))
       \<and> regex_test jsKeywords_re ''return x'' \<and> \<not> regex_test jsKeywords_re ''returned''
       \<and> regex_test domManipulation_re ''document.body''
       \<and> \<not> regex_test domManipulation_re ''documents''
       \<and> regex_test jsMethods_re ''a.push(1)'' \<and> \<not> regex_test jsMethods_re ''push(1)''
       \<and> regex_test arrowFunctions_re ''x=>(y)'' \<and> \<not> regex_test arrowFunctions_re ''x=>y''
       \<and> regex_test jsOperators_re ''a&&b'' \<and> \<not> regex_test jsOperators_re ''a&b''
       \<and> regex_test regexLiterals_re ''/ab/g'' \<and> \<not> regex_test regexLiterals_re ''a/b''
       \<and> regex_test templateLiterals_re
            [CHR 0x60, CHR ''$'', CHR ''{'', CHR ''x'', CHR ''}'', CHR 0x60]
       \<and> \<not> regex_test templateLiterals_re [CHR 0x60, CHR ''x'', CHR 0x60]
       \<and> list_all (regex_test jsKeywords_re)
            [''const'', ''let'', ''var'', ''function'', ''class'', ''if'', ''else'', ''for'', ''while'',
             ''return'', ''new'', ''this'', ''try'', ''catch'', ''finally'', ''async'', ''await'',
             ''export'', ''import'']
       \<and> list_all (regex_test domManipulation_re)
            [''document.x'', ''window.x'', ''a.getElementById'', ''a.querySelector'',
             ''a.createElement'', ''a.appendChild'', ''a.addEventListener'']
       \<and> list_all (regex_test jsMethods_re)
            [''a.push'', ''a.pop'', ''a.map'', ''a.filter'', ''a.forEach'', ''a.reduce'', ''a.find'',
             ''a.some'', ''a.every'', ''console.log'', ''JSON.x'', ''Math.x'']
       \<and> list_all (regex_test jsOperators_re)
            [''==='', ''!=='', ''&&'', ''||'', ''...'', ''??'', ''?.'']"
proof -
  from assms(2) lang_js_includes_js[of cn] have "\<not> str_includes cn ''lang-js''" by blast
  with assms
  have a: "isJavaScript (detectJavaScriptContent cn code) =
           (2 \<le> length (filter (\<lambda>r. regex_test r code)
                    [jsKeywords_re, domManipulation_re, jsMethods_re, arrowFunctions_re,
                     jsOperators_re, regexLiterals_re, templateLiterals_re])
            \<and> \<not> regex_test startsWithTag_re code
            \<and> \<not> regex_test startsWithCssRule_re code)"
    by (simp add: detectJavaScriptContent_def content_signals_def Let_def)
  have b: "contentBasedScore (detectJavaScriptContent cn code)
           = length (filter (\<lambda>r. regex_test r code)
                    [jsKeywords_re, domManipulation_re, jsMethods_re, arrowFunctions_re,
                     jsOperators_re, regexLiterals_re, templateLiterals_re])"
    by (simp add: detectJavaScriptContent_def content_signals_def Let_def)
  have c: "str_includes other ''js'' \<or> str_includes other ''javascript''
            \<longrightarrow> isJavaScript (detectJavaScriptContent other code)"
    by (auto simp: detectJavaScriptContent_def Let_def)
  from a b c show ?thesis
    unfolding startsWithTag_plain startsWithCssRule_plain
    using jsKeywords_examples domManipulation_examples jsMethods_examples
      arrowFunctions_examples jsOperators_examples regexLiterals_examples
      templateLiterals_examples signal_alternatives
    by blast
qed

theorem content_based_detection_witness:
  "isJavaScript (detectJavaScriptContent [] ''a&&b=>(c)'')
   \<and> \<not> isJavaScript (detectJavaScriptContent [] ''let a\<newline>b=>{a&&b}'')"
proof -
  have n: "\<not> str_includes [] ''javascript''" "\<not> str_includes [] ''js''"
    "\<not> str_includes [] ''html''" "\<not> str_includes [] ''xml''" "\<not> str_includes [] ''css''"
    by simp_all
  have two: "2 \<le> length (filter (\<lambda>r. regex_test r ''a&&b=>(c)'')
                    [jsKeywords_re, domManipulation_re, jsMethods_re, arrowFunctions_re,
                     jsOperators_re, regexLiterals_re, templateLiterals_re])"
    by code_simp
  have s1: "dropWhile is_space ''a&&b=>(c)'' = ''a&&b=>(c)''"
    and s2: "dropWhile is_space ''let a\<newline>b=>{a&&b}'' = ''let a\<newline>b=>{a&&b}''"
    by (simp_all add: is_space_def space_chars_def)
  from content_based_detection[OF n, of "''a&&b=>(c)''"] two
  have yes: "isJavaScript (detectJavaScriptContent [] ''a&&b=>(c)'')"
    unfolding s1 by (simp add: letters_def)
  from content_based_detection[OF n, of "''let a\<newline>b=>{a&&b}''"]
  have no: "\<not> isJavaScript (detectJavaScriptContent [] ''let a\<newline>b=>{a&&b}'')"
    unfolding s2 by (simp add: letters_def)
  from yes no show ?thesis by simp
qed

text \<open>
  The class \<open>language-json\<close> names neither the script language nor a markup or style language,
  and the text \<open>{}\<close> has none of the seven signals; the classifier takes the fragment for
  executable. A script of two lines with three of the signals, which begins with no tag and
  whose first line has no brace, is not taken for executable.
\<close>

theorem json_fence_is_executable:
  "contentBasedScore (detectJavaScriptContent ''language-json'' ''{}'') = 0
   \<and> isJavaScript (detectJavaScriptContent ''language-json'' ''{}'')
   \<and> 3 \<le> contentBasedScore (detectJavaScriptContent [] ''let a\<newline>b=>{a&&b}'')
   \<and> \<not> regex_test startsWithTag_re ''let a\<newline>b=>{a&&b}''
   \<and> CHR ''{'' \<notin> set ''let a''
   \<and> \<not> isJavaScript (detectJavaScriptContent [] ''let a\<newline>b=>{a&&b}'')"
  by code_simp

section \<open>Properties of the Sandbox Builder\<close>

lemma is_script_end_first: "is_script_end (c # cs) \<Longrightarrow> c = CHR ''<''"
  by (auto simp: is_script_end_def to_lower_def other_case_def letters_def split: if_splits)

lemma script_text_skip:
  assumes "list_all (\<lambda>c. c \<noteq> CHR ''<'') xs"
  shows "script_text (xs @ ys) = map_option ((@) xs) (script_text ys)"
  using assms
proof (induction xs)
  case Nil
  then show ?case by (simp add: option.map_ident)
next
  case (Cons c xs)
  then have "c \<noteq> CHR ''<''" by simp
  then have "\<not> is_script_end (c # xs @ ys)" "\<not> startsWith (c # xs @ ys) ''<!--''"
    using is_script_end_first by (auto simp: startsWith_def)
  with Cons show ?case by (simp add: option.map_comp comp_def)
qed

text \<open>No text of the bootstrap before the slot of the user code contains a \<open><\<close>.\<close>

lemma sandbox_main_script_a_plain: "list_all (\<lambda>c. c \<noteq> CHR ''<'') sandbox_main_script_a"
  by (simp add: sandbox_main_script_a_def)

lemma sandbox_main_script_b_plain: "list_all (\<lambda>c. c \<noteq> CHR ''<'') sandbox_main_script_b"
  by (simp add: sandbox_main_script_b_def)

lemma sandbox_main_script_c_plain: "list_all (\<lambda>c. c \<noteq> CHR ''<'') sandbox_main_script_c"
  by (simp add: sandbox_main_script_c_def)

lemma sandbox_script_a_plain: "list_all (\<lambda>c. c \<noteq> CHR ''<'') sandbox_script_a"
  by (simp add: sandbox_script_a_def)

lemma sandbox_script_b_plain: "list_all (\<lambda>c. c \<noteq> CHR ''<'') sandbox_script_b"
  by (simp add: sandbox_script_b_def)

lemma sandbox_script_c_plain: "list_all (\<lambda>c. c \<noteq> CHR ''<'') sandbox_script_c"
  by (simp add: sandbox_script_c_def)

lemma JSON_stringify_example:
  \<open>JSON_stringify ''var s = "</script>";'' =
     ''"var s = '' @ [CHR 0x5C] @ ''"</script>'' @ [CHR 0x5C] @ ''";"''\<close>
  by (simp add: JSON_stringify_def json_quote_char_def json_escapes_def)

text \<open>
  C1 at the input \<open>var s = "</script>";\<close>. The builders embed the code as the literal that
  \<open>JSON.stringify\<close> gives, in which \<open><\<close> and \<open>/\<close> stand for themselves. In the document the
  script element therefore ends at the \<open></script>\<close> inside the literal: the script that the
  browser gets is the bootstrap up to the slot followed by the opening of the literal, an
  unterminated string, and the rest of the user code follows the script as markup. This holds
  for the document of the builder of part_000 and for the one that the builder of main.js is
  written to produce.
\<close>

theorem sandbox_script_ended_by_user_code:
  \<open>script_text (sandbox_script_main ''var s = "</script>";'' [] ''ember-frame-0-1700000000000''
       @ ''</script></body></html>'')
     = Some (sandbox_main_script_a @ ''ember-frame-0-1700000000000'' @ sandbox_main_script_b
         @ ''[]'' @ sandbox_main_script_c @ ''"var s = '' @ [CHR 0x5C, CHR 0x22])
   \<and> script_text (sandbox_script ''var s = "</script>";'' [] ''ember-frame-0-1700000000000''
       @ ''</script></body></html>'')
     = Some (sandbox_script_a @ ''ember-frame-0-1700000000000'' @ sandbox_script_b
         @ ''[]'' @ sandbox_script_c @ ''"var s = '' @ [CHR 0x5C, CHR 0x22])\<close>
proof -
  have cut: \<open>script_text (''</script>'' @ zs) = Some []\<close> for zs
    by (simp add: is_script_end_def to_lower_def other_case_def letters_def)
  have plain: \<open>list_all (\<lambda>c. c \<noteq> CHR ''<'')
      (''ember-frame-0-1700000000000'')\<close>
    \<open>list_all (\<lambda>c. c \<noteq> CHR ''<'') (''[]'')\<close>
    \<open>list_all (\<lambda>c. c \<noteq> CHR ''<'') (''"var s = '' @ [CHR 0x5C, CHR 0x22])\<close>
    by simp_all
  have m: \<open>sandbox_script_main ''var s = "</script>";'' [] ''ember-frame-0-1700000000000''
        @ ''</script></body></html>''
      = (sandbox_main_script_a @ ''ember-frame-0-1700000000000'' @ sandbox_main_script_b
          @ ''[]'' @ sandbox_main_script_c @ ''"var s = '' @ [CHR 0x5C, CHR 0x22])
        @ (''</script>'' @ [CHR 0x5C] @ ''";"'' @ sandbox_main_script_d
            @ ''</script></body></html>'')\<close>
    by (simp add: sandbox_script_main_def JSON_stringify_example JSON_stringify_array_def)
  have p: \<open>sandbox_script ''var s = "</script>";'' [] ''ember-frame-0-1700000000000''
        @ ''</script></body></html>''
      = (sandbox_script_a @ ''ember-frame-0-1700000000000'' @ sandbox_script_b
          @ ''[]'' @ sandbox_script_c @ ''"var s = '' @ [CHR 0x5C, CHR 0x22])
        @ (''</script>'' @ [CHR 0x5C] @ ''";"'' @ sandbox_script_d
            @ ''</script></body></html>'')\<close>
    by (simp add: sandbox_script_def JSON_stringify_example JSON_stringify_array_def)
  have pm: \<open>list_all (\<lambda>c. c \<noteq> CHR ''<'')
      (sandbox_main_script_a @ ''ember-frame-0-1700000000000'' @ sandbox_main_script_b
          @ ''[]'' @ sandbox_main_script_c @ ''"var s = '' @ [CHR 0x5C, CHR 0x22])\<close>
    using sandbox_main_script_a_plain sandbox_main_script_b_plain sandbox_main_script_c_plain plain
    by (simp only: list_all_append simp_thms)
  have pp: \<open>list_all (\<lambda>c. c \<noteq> CHR ''<'')
      (sandbox_script_a @ ''ember-frame-0-1700000000000'' @ sandbox_script_b
          @ ''[]'' @ sandbox_script_c @ ''"var s = '' @ [CHR 0x5C, CHR 0x22])\<close>
    using sandbox_script_a_plain sandbox_script_b_plain sandbox_script_c_plain plain
    by (simp only: list_all_append simp_thms)
  show ?thesis
    unfolding m p script_text_skip[OF pm] script_text_skip[OF pp] cut
    by simp
qed

section \<open>Properties of the Message Processor\<close>


lemma processCodeBlock_cases:
  "processCodeBlock ev mid p b = (p', b') \<Longrightarrow>
     (\<not> reaches_ledger b \<and> ledger p' = ledger p \<and> contexts p' = contexts p \<and> reads p' = reads p)
   \<or> (reaches_ledger b \<and> block_key b \<in> set (ledger p) \<and> p' = p \<and> marked_duplicate b')
   \<or> (reaches_ledger b \<and> block_key b \<notin> set (ledger p) \<and> ledger p' = ledger p @ [block_key b]
        \<and> \<not> syntax_ok ev (javascriptCode_of b) \<and> contexts p' = contexts p
        \<and> emberProcessed b' = Some ''syntax-error'' \<and> reads p' = reads p)
   \<or> (reaches_ledger b \<and> block_key b \<notin> set (ledger p) \<and> ledger p' = ledger p @ [block_key b]
        \<and> syntax_ok ev (javascriptCode_of b) \<and> reads p' = Suc (reads p)
        \<and> fetch_all (fetch ev) (libUrls (origin ev) requestedLibs_all) = None
        \<and> contexts p' = contexts p \<and> emberProcessed b' = Some ''false'')
   \<or> (reaches_ledger b \<and> block_key b \<notin> set (ledger p) \<and> ledger p' = ledger p @ [block_key b]
        \<and> syntax_ok ev (javascriptCode_of b) \<and> reads p' = Suc (reads p)
        \<and> (\<exists>libCodes. fetch_all (fetch ev) (libUrls (origin ev) requestedLibs_all) = Some libCodes
             \<and> contexts p' = contexts p
                 @ [\<lparr>ctx_frameId = frame_id mid ''codeblock-'' (now ev (reads p)),
                     ctx_code = javascriptCode_of b,
                     ctx_frame = createSandboxedFrame (javascriptCode_of b) libCodes
                       (frame_id mid ''codeblock-'' (now ev (reads p)))\<rparr>])
        \<and> emberProcessed b' = Some ''true'' \<and> pre_display b' = ''none'')"
  unfolding processCodeBlock_def reaches_ledger_def block_key_def marked_duplicate_def Let_def
  by (auto split: if_splits option.splits)






lemma processCodeBlock_ledger_mono:
  assumes "processCodeBlock ev mid p b = (p', b')"
  shows "set (ledger p) \<subseteq> set (ledger p')"
  using processCodeBlock_cases[OF assms] by auto

lemma processCodeBlock_ledger_bound:
  assumes "processCodeBlock ev mid p b = (p', b')" and "k \<in> set (ledger p')" and "k \<notin> set (ledger p)"
  shows "reaches_ledger b \<and> block_key b = k"
  using processCodeBlock_cases[OF assms(1)] assms(2,3) by auto

lemma processCodeBlock_contexts_grow:
  assumes "processCodeBlock ev mid p b = (p', b')"
  shows "\<exists>new. contexts p' = contexts p @ new"
  using processCodeBlock_cases[OF assms] by auto

lemma processCodeBlock_key_recorded:
  assumes "processCodeBlock ev mid p b = (p', b')" and "reaches_ledger b"
  shows "block_key b \<in> set (ledger p')"
  using processCodeBlock_cases[OF assms(1)] assms(2) by auto

lemma processCodeBlock_duplicate:
  assumes "processCodeBlock ev mid p b = (p', b')" and "reaches_ledger b"
    and "block_key b \<in> set (ledger p)"
  shows "p' = p \<and> marked_duplicate b'"
  using processCodeBlock_cases[OF assms(1)] assms(2,3) by auto

lemma processCodeBlock_rejected:
  assumes "processCodeBlock ev mid p b = (p', b')" and "reaches_ledger b"
    and "\<not> syntax_ok ev (javascriptCode_of b)"
  shows "contexts p' = contexts p
       \<and> (emberProcessed b' = Some ''syntax-error'' \<or> marked_duplicate b')"
  using processCodeBlock_cases[OF assms(1)] assms(2,3) by auto

lemma processCodeBlock_created:
  assumes "processCodeBlock ev mid p b = (p', b')" and "reaches_ledger b"
    and "block_key b \<notin> set (ledger p)" and "syntax_ok ev (javascriptCode_of b)"
    and "fetch_all (fetch ev) (libUrls (origin ev) requestedLibs_all) \<noteq> None"
  shows "\<exists>c. contexts p' = contexts p @ [c] \<and> ctx_code c = javascriptCode_of b"
  using processCodeBlock_cases[OF assms(1)] assms(2-5) by auto

text \<open>The loop over the code blocks.\<close>

lemma processCodeBlocks_Cons:
  assumes "processCodeBlock ev mid p b = (p1, b1)"
  shows "processCodeBlocks ev mid p (b # bs) =
           (fst (processCodeBlocks ev mid p1 bs), b1 # snd (processCodeBlocks ev mid p1 bs))"
  using assms by (simp split: prod.splits)




lemma processCodeBlocks_ledger_mono:
  "set (ledger p) \<subseteq> set (ledger (fst (processCodeBlocks ev mid p bs)))"
proof (induction bs arbitrary: p)
  case Nil
  then show ?case by simp
next
  case (Cons b bs)
  obtain p1 b1 where s: "processCodeBlock ev mid p b = (p1, b1)" by (cases "processCodeBlock ev mid p b")
  from processCodeBlock_ledger_mono[OF s] Cons.IH[of p1] s show ?case
    by (auto split: prod.splits)
qed

lemma processCodeBlocks_ledger_bound:
  assumes "k \<in> set (ledger (fst (processCodeBlocks ev mid p bs)))" and "k \<notin> set (ledger p)"
  shows "\<exists>x \<in> set bs. reaches_ledger x \<and> block_key x = k"
  using assms
proof (induction bs arbitrary: p)
  case Nil
  then show ?case by simp
next
  case (Cons b bs)
  obtain p1 b1 where s: "processCodeBlock ev mid p b = (p1, b1)" by (cases "processCodeBlock ev mid p b")
  with Cons.prems(1) have k: "k \<in> set (ledger (fst (processCodeBlocks ev mid p1 bs)))"
    by (auto split: prod.splits)
  show ?case
  proof (cases "k \<in> set (ledger p1)")
    case True
    from processCodeBlock_ledger_bound[OF s True Cons.prems(2)] show ?thesis by simp
  next
    case False
    from Cons.IH[OF k False] show ?thesis by auto
  qed
qed

lemma processCodeBlocks_contexts_grow:
  "\<exists>new. contexts (fst (processCodeBlocks ev mid p bs)) = contexts p @ new"
proof (induction bs arbitrary: p)
  case Nil
  then show ?case by simp
next
  case (Cons b bs)
  obtain p1 b1 where s: "processCodeBlock ev mid p b = (p1, b1)" by (cases "processCodeBlock ev mid p b")
  from processCodeBlock_contexts_grow[OF s] obtain n1 where "contexts p1 = contexts p @ n1" ..
  moreover from Cons.IH[of p1] obtain n2
    where "contexts (fst (processCodeBlocks ev mid p1 bs)) = contexts p1 @ n2" ..
  ultimately show ?case using s by (auto split: prod.splits)
qed


lemma processCodeBlocks_known_key:
  assumes "k \<in> set (ledger p)" and "j < length bs" and "reaches_ledger (bs ! j)"
    and "block_key (bs ! j) = k"
  shows "marked_duplicate (snd (processCodeBlocks ev mid p bs) ! j)"
  using assms
proof (induction bs arbitrary: p j)
  case Nil
  then show ?case by simp
next
  case (Cons b bs)
  obtain p1 b1 where s: "processCodeBlock ev mid p b = (p1, b1)" by (cases "processCodeBlock ev mid p b")
  obtain p2 bs2 where r: "processCodeBlocks ev mid p1 bs = (p2, bs2)"
    by (cases "processCodeBlocks ev mid p1 bs")
  show ?case
  proof (cases j)
    case 0
    with Cons.prems processCodeBlock_duplicate[OF s] s r show ?thesis by simp
  next
    case (Suc j')
    from processCodeBlock_ledger_mono[OF s] Cons.prems(1) have "k \<in> set (ledger p1)" by auto
    from Cons.IH[OF this, of j'] Cons.prems Suc s r show ?thesis by simp
  qed
qed

lemma processCodeBlocks_later_duplicate:
  assumes "i < j" and "j < length bs" and "reaches_ledger (bs ! i)" and "reaches_ledger (bs ! j)"
    and "block_key (bs ! i) = block_key (bs ! j)"
  shows "marked_duplicate (snd (processCodeBlocks ev mid p bs) ! j)"
  using assms
proof (induction bs arbitrary: p i j)
  case Nil
  then show ?case by simp
next
  case (Cons b bs)
  obtain p1 b1 where s: "processCodeBlock ev mid p b = (p1, b1)" by (cases "processCodeBlock ev mid p b")
  obtain p2 bs2 where r: "processCodeBlocks ev mid p1 bs = (p2, bs2)"
    by (cases "processCodeBlocks ev mid p1 bs")
  from Cons.prems(1) obtain j' where j: "j = Suc j'" by (cases j) auto
  show ?case
  proof (cases i)
    case 0
    with Cons.prems(3) have "reaches_ledger b" by simp
    from processCodeBlock_key_recorded[OF s this] have "block_key b \<in> set (ledger p1)" .
    from processCodeBlocks_known_key[OF this, of j' bs ev mid] Cons.prems 0 j s r
    show ?thesis by simp
  next
    case (Suc i')
    from Cons.IH[of i' j' p1] Cons.prems Suc j s r show ?thesis by simp
  qed
qed

lemma distinct_filter_le_1:
  assumes "distinct (map f xs)" and "\<And>x. P x \<Longrightarrow> f x = k"
  shows "length (filter P xs) \<le> 1"
  using assms(1)
proof (induction xs)
  case Nil
  then show ?case by simp
next
  case (Cons x xs)
  show ?case
  proof (cases "P x")
    case True
    then have "f x = k" by (rule assms(2))
    with Cons.prems have "\<forall>y \<in> set xs. \<not> P y" using assms(2) by (metis distinct.simps(2) image_eqI list.simps(9) set_map)
    then have "filter P xs = []" by (simp add: filter_empty_conv)
    with True show ?thesis by simp
  next
    case False
    with Cons show ?thesis by simp
  qed
qed

lemma pass_inv_one_per_source:
  assumes "pass_inv p"
  shows "length (filter (\<lambda>c. trim (ctx_code c) = n) (contexts p)) \<le> 1"
  using assms
  by (intro distinct_filter_le_1[where f = context_key and k = "hash_key n"])
     (auto simp: pass_inv_def context_key_def)








text \<open>Blocks of the script language, for the examples.\<close>

lemma direct_javascript:
  "str_includes cn ''javascript'' \<Longrightarrow> isJavaScript (detectJavaScriptContent cn code)"
  by (simp add: detectJavaScriptContent_def Let_def)

lemma not_html_with_javascript:
  "\<not> str_includes cn ''html'' \<Longrightarrow> \<not> str_includes cn ''xml''
     \<Longrightarrow> \<not> isHtmlWithJavaScript (detectJavaScriptContent cn code)"
  by (simp add: detectJavaScriptContent_def Let_def)

lemma js_block_reaches_ledger: "trim (trim t) \<noteq> [] \<Longrightarrow> reaches_ledger (js_block t)"
  using direct_javascript[of "''language-javascript''" "trim t"]
  by (simp add: reaches_ledger_def js_block_def startsWith_def)

lemma js_block_code: "javascriptCode_of (js_block t) = decode_entities (trim t)"
  using not_html_with_javascript[of "''language-javascript''" "trim t"]
  by (simp add: javascriptCode_of_def js_block_def Let_def startsWith_def)


lemma trim_call: "trim ''a()'' = ''a()''"
  by (simp add: trim_def is_space_def space_chars_def)


lemma decode_call: "decode_entities ''a()'' = ''a()''"
  by code_simp

lemma loop_of_message:
  "loop_start ev mid (message_of bs) = new_pass \<and> loop_blocks ev mid (message_of bs) = bs"
  by (simp add: loop_start_def loop_blocks_def scripts_pass_def message_of_def new_pass_def)

lemma processMessage_of_message:
  "processMessage ev mid (message_of bs) = processCodeBlocks ev mid new_pass bs"
proof -
  have "after_loop ev (message_of bs) r = r" for r
    by (cases r) (simp add: after_loop_def direct_html_def message_of_def)
  with loop_of_message[of ev mid bs] show ?thesis
    by (simp add: processMessage_def message_of_def)
qed

lemma example_env_serves:
  "fetch_all (fetch example_env) us = Some (map (\<lambda>u. ''/* library */'') us)"
  by (induction us) (simp_all add: example_env_def)














lemma processCodeBlock_created_eq:
  assumes "reaches_ledger b" and "block_key b \<notin> set (ledger p)"
    and "syntax_ok ev (javascriptCode_of b)"
    and "fetch_all (fetch ev) (libUrls (origin ev) requestedLibs_all) = Some libCodes"
  shows "processCodeBlock ev mid p b
           = (p\<lparr>ledger := ledger p @ [block_key b], processedByEmberJs := True,
                reads := Suc (reads p),
                contexts := contexts p
                  @ [\<lparr>ctx_frameId = frame_id mid ''codeblock-'' (now ev (reads p)),
                      ctx_code = javascriptCode_of b,
                      ctx_frame = createSandboxedFrame (javascriptCode_of b) libCodes
                        (frame_id mid ''codeblock-'' (now ev (reads p)))\<rparr>],
                page := add_containers (appended p)
                  (frame_id mid ''codeblock-'' (now ev (reads p))) spinner_html (page p)\<rparr>,
              b\<lparr>emberProcessed := Some ''true'', pre_display := ''none''\<rparr>)"
  using assms
  by (simp add: processCodeBlock_def reaches_ledger_def block_key_def Let_def)


















section \<open>Properties of the context identifiers and of the Dependency Resolver\<close>

lemma example_frame_id:
  "frame_id 7 infix_part (now example_env k) = ''ember-frame-7-'' @ infix_part @ ''1700000000000''"
  by (simp add: frame_id_def show_int_def show_digits.simps example_env_def)




lemma resolve_legacy_warnings:
  "length (snd (resolve_legacy org requested)) = length (filter (\<lambda>a. \<not> known_alias a) requested)"
  by (induction requested) (auto simp: known_alias_def split: option.splits)


lemma ticking_frame_ids:
  "frame_id 7 infix_part (now ticking_env 0) = ''ember-frame-7-'' @ infix_part @ ''1700000000000''"
  "frame_id 7 infix_part (now ticking_env (Suc 0)) = ''ember-frame-7-'' @ infix_part @ ''1700000000001''"
  by (simp_all add: frame_id_def show_int_def show_digits.simps ticking_env_def example_env_def)

lemma ticking_env_serves:
  "fetch_all (fetch ticking_env) us = Some (map (\<lambda>u. ''/* library */'') us)"
  using example_env_serves[of us] by (simp add: ticking_env_def)

lemma call_blocks:
  "reaches_ledger (js_block ''a()'')" "javascriptCode_of (js_block ''a()'') = ''a()''"
  "reaches_ledger (js_block ''b()'')" "javascriptCode_of (js_block ''b()'') = ''b()''"
  "block_key (js_block ''b()'') \<noteq> block_key (js_block ''a()'')"
proof -
  have tb: "trim ''b()'' = ''b()''"
    by (simp add: trim_def is_space_def space_chars_def)
  have db: "decode_entities ''b()'' = ''b()''"
    by code_simp
  have k: "hash_key ''b()'' \<noteq> hash_key ''a()''"
    by code_simp
  show "reaches_ledger (js_block ''a()'')"
    by (rule js_block_reaches_ledger) (simp add: trim_call)
  show "reaches_ledger (js_block ''b()'')"
    by (rule js_block_reaches_ledger) (simp add: tb)
  show a: "javascriptCode_of (js_block ''a()'') = ''a()''"
    by (simp add: js_block_code trim_call decode_call)
  show b: "javascriptCode_of (js_block ''b()'') = ''b()''"
    by (simp add: js_block_code tb db)
  show "block_key (js_block ''b()'') \<noteq> block_key (js_block ''a()'')"
    by (simp add: block_key_def a b tb trim_call k)
qed

text \<open>
  The pass over two code blocks of the script language that both pass the check, in an
  environment that serves every library: the identifiers of the two contexts are made from
  the first and the second reading of the clock.
\<close>

lemma two_blocks_pass:
  assumes "\<And>us. fetch_all (fetch ev) us = Some (map (\<lambda>u. ''/* library */'') us)"
    and "syntax_ok ev ''a()''" and "syntax_ok ev ''b()''"
  shows "map ctx_frameId (contexts (fst (processMessage ev mid (message_of [js_block ''a()'', js_block ''b()'']))))
           = [frame_id mid ''codeblock-'' (now ev 0), frame_id mid ''codeblock-'' (now ev 1)]
       \<and> page (fst (processMessage ev mid (message_of [js_block ''a()'', js_block ''b()''])))
           = add_containers 0 (frame_id mid ''codeblock-'' (now ev 1)) spinner_html
               (add_containers 0 (frame_id mid ''codeblock-'' (now ev 0)) spinner_html empty_host)"
proof -
  let ?libs = "map (\<lambda>u. ''/* library */'') (libUrls (origin ev) requestedLibs_all)"
  let ?p1 = "new_pass\<lparr>ledger := ledger new_pass @ [block_key (js_block ''a()'')],
                processedByEmberJs := True, reads := Suc (reads new_pass),
                contexts := contexts new_pass
                  @ [\<lparr>ctx_frameId = frame_id mid ''codeblock-'' (now ev (reads new_pass)),
                      ctx_code = javascriptCode_of (js_block ''a()''),
                      ctx_frame = createSandboxedFrame (javascriptCode_of (js_block ''a()'')) ?libs
                        (frame_id mid ''codeblock-'' (now ev (reads new_pass)))\<rparr>],
                page := add_containers (appended new_pass)
                  (frame_id mid ''codeblock-'' (now ev (reads new_pass))) spinner_html (page new_pass)\<rparr>"
  have 1: "processCodeBlock ev mid new_pass (js_block ''a()'')
      = (?p1, (js_block ''a()'')\<lparr>emberProcessed := Some ''true'', pre_display := ''none''\<rparr>)"
    by (rule processCodeBlock_created_eq)
       (simp_all add: call_blocks assms new_pass_def)
  have 2: "processCodeBlock ev mid ?p1 (js_block ''b()'')
      = (?p1\<lparr>ledger := ledger ?p1 @ [block_key (js_block ''b()'')],
                processedByEmberJs := True, reads := Suc (reads ?p1),
                contexts := contexts ?p1
                  @ [\<lparr>ctx_frameId = frame_id mid ''codeblock-'' (now ev (reads ?p1)),
                      ctx_code = javascriptCode_of (js_block ''b()''),
                      ctx_frame = createSandboxedFrame (javascriptCode_of (js_block ''b()'')) ?libs
                        (frame_id mid ''codeblock-'' (now ev (reads ?p1)))\<rparr>],
                page := add_containers (appended ?p1)
                  (frame_id mid ''codeblock-'' (now ev (reads ?p1))) spinner_html (page ?p1)\<rparr>,
         (js_block ''b()'')\<lparr>emberProcessed := Some ''true'', pre_display := ''none''\<rparr>)"
    by (rule processCodeBlock_created_eq)
       (simp_all add: call_blocks assms new_pass_def)
  show ?thesis
    unfolding processMessage_of_message processCodeBlocks_Cons[OF 1] processCodeBlocks_Cons[OF 2]
    by (simp add: new_pass_def)
qed

text \<open>
  C7 at a message with two code blocks of the script language that are set up within one
  reading of the clock. Both contexts get the same identifier, made of the message id and that
  reading, and the containers of both carry it. The listener finds the first of them for
  either context: the success report of the second context reveals the output container of
  the first, and the second stays hidden. When the two readings differ, so do the
  identifiers: they are only as distinct as the readings of the clock.
\<close>

theorem frame_ids_collide:
  "map ctx_frameId (contexts (fst (processMessage example_env 7
       (message_of [js_block ''a()'', js_block ''b()'']))))
     = [''ember-frame-7-codeblock-1700000000000'', ''ember-frame-7-codeblock-1700000000000'']
   \<and> map fst (emberContainers (page (fst (processMessage example_env 7
       (message_of [js_block ''a()'', js_block ''b()''])))))
     = [''ember-frame-7-codeblock-1700000000000'', ''ember-frame-7-codeblock-1700000000000'']
   \<and> map (\<lambda>c. final_display (snd c))
       (emberContainers (fst (messageListener
          (page (fst (processMessage example_env 7
             (message_of [js_block ''a()'', js_block ''b()'']))))
          (success_report ''ember-frame-7-codeblock-1700000000000''))))
     = [''block'', ''none'']
   \<and> map ctx_frameId (contexts (fst (processMessage ticking_env 7
       (message_of [js_block ''a()'', js_block ''b()'']))))
     = [''ember-frame-7-codeblock-1700000000000'', ''ember-frame-7-codeblock-1700000000001'']"
proof -
  have ok: "syntax_ok example_env ''a()''" "syntax_ok example_env ''b()''"
    "syntax_ok ticking_env ''a()''" "syntax_ok ticking_env ''b()''"
    by (simp_all add: example_env_def ticking_env_def)
  note same = two_blocks_pass[of example_env 7, OF example_env_serves ok(1,2)]
  note ticking = two_blocks_pass[of ticking_env 7, OF ticking_env_serves ok(3,4)]
  have a: "map ctx_frameId (contexts (fst (processMessage example_env 7
       (message_of [js_block ''a()'', js_block ''b()'']))))
     = [''ember-frame-7-codeblock-1700000000000'', ''ember-frame-7-codeblock-1700000000000'']"
    using same by (simp add: example_frame_id)
  have pg: "page (fst (processMessage example_env 7 (message_of [js_block ''a()'', js_block ''b()''])))
      = add_containers 0 ''ember-frame-7-codeblock-1700000000000'' spinner_html
          (add_containers 0 ''ember-frame-7-codeblock-1700000000000'' spinner_html empty_host)"
    using same by (simp add: example_frame_id)
  have b: "map fst (emberContainers (page (fst (processMessage example_env 7
       (message_of [js_block ''a()'', js_block ''b()''])))))
     = [''ember-frame-7-codeblock-1700000000000'', ''ember-frame-7-codeblock-1700000000000'']"
    unfolding pg by (simp add: add_containers_def insert_before_tail_def empty_host_def)
  have c: "map (\<lambda>c. final_display (snd c))
       (emberContainers (fst (messageListener
          (page (fst (processMessage example_env 7
             (message_of [js_block ''a()'', js_block ''b()'']))))
          (success_report ''ember-frame-7-codeblock-1700000000000''))))
     = [''block'', ''none'']"
    unfolding pg
    by (simp add: messageListener_def on_success_def success_report_def add_containers_def
        insert_before_tail_def empty_host_def startsWith_def Let_def)
  have d: "map ctx_frameId (contexts (fst (processMessage ticking_env 7
       (message_of [js_block ''a()'', js_block ''b()'']))))
     = [''ember-frame-7-codeblock-1700000000000'', ''ember-frame-7-codeblock-1700000000001'']"
    using ticking by (simp add: ticking_frame_ids)
  from a b c d show ?thesis by simp
qed




section \<open>Properties of escaped patterns\<close>

lemma rmatch_re_lit:
  "rmatch (re_lit s) (prev, rest, caps) =
     (if startsWith rest s then [(rev s @ prev, drop (length s) rest, caps)] else [])"
proof (induction s arbitrary: prev rest)
  case Nil
  show ?case by (simp add: re_lit_def startsWith_def)
next
  case (Cons c s)
  have unfold: "re_lit (c # s) = Seq (re_chr c) (re_lit s)"
    by (simp add: re_lit_def)
  show ?case
  proof (cases rest)
    case Nil
    then show ?thesis by (simp add: unfold re_chr_def startsWith_def)
  next
    case (Cons d ds)
    show ?thesis
      unfolding unfold Cons
      by (simp add: re_chr_def Cons.IH startsWith_def)
  qed
qed

lemma match_result_of_literal:
  assumes "startsWith rest s"
  shows "match_result_of prev rest (rev s @ p, drop (length s) rest, caps) =
           \<lparr>match_index = length prev, matched = s, captures = caps\<rparr>"
proof -
  from assms have t: "take (length s) rest = s"
    by (simp add: startsWith_def)
  have "length s \<le> length rest"
    using arg_cong[OF t, of length] by simp
  then have "length rest - (length rest - length s) = length s"
    by simp
  then show ?thesis
    by (simp add: match_result_of_def t)
qed

lemma exec_from_re_lit:
  "exec_from (re_lit s) prev subject =
     map_option (\<lambda>i. \<lparr>match_index = length prev + i, matched = s, captures = []\<rparr>)
       (index_of subject s)"
proof (induction subject arbitrary: prev)
  case Nil
  show ?case
    by (simp add: rmatch_re_lit match_result_of_def startsWith_def)
next
  case (Cons c cs)
  show ?case
  proof (cases "startsWith (c # cs) s")
    case True
    then show ?thesis
      by (simp add: rmatch_re_lit match_result_of_literal)
  next
    case False
    then show ?thesis
      by (simp add: rmatch_re_lit Cons.IH option.map_comp comp_def)
  qed
qed

lemma pieces_of_class:
  "pieces (Cls False ms) prev s 0 =
     map (\<lambda>c. if c \<in> set ms then Matched [c] else Unmatched [c]) s"
  by (induction s arbitrary: prev) simp_all

lemma escapeRegExp_chars:
  "escapeRegExp s =
     concat (map (\<lambda>c. if c \<in> set regexp_specials then [CHR 0x5C, c] else [c]) s)"
proof -
  have "map (\<lambda>p. case p of Matched m \<Rightarrow> CHR 0x5C # m | Unmatched u \<Rightarrow> u)
          (map (\<lambda>c. if c \<in> set regexp_specials then Matched [c] else Unmatched [c]) s)
        = map (\<lambda>c. if c \<in> set regexp_specials then [CHR 0x5C, c] else [c]) s"
    by (induction s) simp_all
  then show ?thesis
    by (simp only: escapeRegExp_def pieces_of_class)
qed

lemma specials_are_syntax_chars:
  "set regexp_specials = set syntax_chars"
  by (auto simp add: regexp_specials_def syntax_chars_def)

lemma tokenize_plain:
  assumes "c \<notin> set regexp_specials"
  shows "tokenize d Normal (c # cs) = map_option ((#) (TAtom (re_chr c) True)) (tokenize d Normal cs)"
  using assms by (simp add: regexp_specials_def)

lemma tokenize_escape:
  assumes "c \<in> set regexp_specials"
  shows "tokenize d Normal (CHR 0x5C # c # cs) =
           map_option ((#) (TAtom (re_chr c) True)) (tokenize d Normal cs)"
proof -
  from assms have "escape_atom c = Some (TAtom (re_chr c) True)"
    by (simp add: escape_atom_def specials_are_syntax_chars)
  then show ?thesis by simp
qed

lemma tokenize_escapeRegExp:
  "tokenize d Normal (escapeRegExp s) = Some (map (\<lambda>c. TAtom (re_chr c) True) s)"
proof (induction s)
  case Nil
  show ?case by (simp add: escapeRegExp_chars)
next
  case (Cons c s)
  have step: "escapeRegExp (c # s) =
      (if c \<in> set regexp_specials then [CHR 0x5C, c] else [c]) @ escapeRegExp s"
    by (simp add: escapeRegExp_chars)
  show ?case
  proof (cases "c \<in> set regexp_specials")
    case True
    then have "escapeRegExp (c # s) = CHR 0x5C # c # escapeRegExp s"
      by (simp add: step)
    then show ?thesis
      by (simp only: tokenize_escape[OF True] Cons.IH) simp
  next
    case False
    then have "escapeRegExp (c # s) = c # escapeRegExp s"
      by (simp add: step)
    then show ?thesis
      by (simp only: tokenize_plain[OF False] Cons.IH) simp
  qed
qed

lemma parse_atoms:
  "parse_tokens (map (\<lambda>c. TAtom (re_chr c) True) s) ((g, alts, items) # fs) n =
     parse_tokens [] ((g, alts, rev (map (\<lambda>c. (re_chr c, True)) s) @ items) # fs) n"
  by (induction s arbitrary: items) simp_all

lemma re_seq_chars:
  "re_seq (map re_chr s) = re_lit s"
  by (induction s) (simp_all add: re_seq_def re_lit_def)

lemma new_RegExp_escapeRegExp:
  "new_RegExp (escapeRegExp s) d = Some (re_lit s)"
proof -
  have "map fst (rev (map (\<lambda>c. (re_chr c, True)) s)) = rev (map re_chr s)"
    by (simp add: rev_map comp_def)
  then have "close_frame (None, [], rev (map (\<lambda>c. (re_chr c, True)) s)) = re_lit s"
    by (simp add: close_frame_def re_alt_def re_seq_chars)
  then show ?thesis
    by (simp add: new_RegExp_def tokenize_escapeRegExp parse_atoms)
qed

lemma unescaped_pattern_example:
  "\<exists>r. new_RegExp ''a.c'' True = Some r \<and> regex_test r ''abc'' \<and> \<not> str_includes ''abc'' ''a.c''"
  by (simp add: new_RegExp_def escape_atom_def syntax_chars_def re_alt_def re_seq_def
      close_frame_def regex_test_def regex_exec_def re_chr_def re_any_def startsWith_def)

text \<open>The two patterns that the repair loop builds around an escaped text.\<close>

lemma tokenize_escaped_append:
  "tokenize d Normal (escapeRegExp s @ rest)
     = map_option ((@) (map (\<lambda>c. TAtom (re_chr c) True) s)) (tokenize d Normal rest)"
proof (induction s)
  case Nil
  show ?case
    by (cases "tokenize d Normal rest") (simp_all add: escapeRegExp_chars)
next
  case (Cons c s)
  have step: "escapeRegExp (c # s) =
      (if c \<in> set regexp_specials then [CHR 0x5C, c] else [c]) @ escapeRegExp s"
    by (simp add: escapeRegExp_chars)
  show ?case
  proof (cases "c \<in> set regexp_specials")
    case True
    then have "escapeRegExp (c # s) @ rest = CHR 0x5C # c # (escapeRegExp s @ rest)"
      by (simp add: step)
    then show ?thesis
      by (cases "tokenize d Normal rest") (simp_all only: tokenize_escape[OF True] Cons.IH, simp_all)
  next
    case False
    then have "escapeRegExp (c # s) @ rest = c # (escapeRegExp s @ rest)"
      by (simp add: step)
    then show ?thesis
      by (cases "tokenize d Normal rest") (simp_all only: tokenize_plain[OF False] Cons.IH, simp_all)
  qed
qed

lemma escaped_head:
  assumes "case rest of [] \<Rightarrow> True | e # _ \<Rightarrow> e \<noteq> CHR ''?''"
  shows "case escapeRegExp s @ rest of [] \<Rightarrow> True | e # _ \<Rightarrow> e \<noteq> CHR ''?''"
proof (cases s)
  case Nil
  with assms show ?thesis by (simp add: escapeRegExp_chars)
next
  case (Cons c s')
  then show ?thesis
    by (auto simp: escapeRegExp_chars regexp_specials_def)
qed

lemma tokenize_quantifier:
  assumes "case cs of [] \<Rightarrow> True | e # _ \<Rightarrow> e \<noteq> CHR ''?''"
  shows "tokenize d Normal (CHR ''*'' # cs)
           = map_option ((#) (TQuant QStar True)) (tokenize d Normal cs)"
    and "tokenize d Normal (CHR ''?'' # cs)
           = map_option ((#) (TQuant QOpt True)) (tokenize d Normal cs)"
  using assms by (cases cs; simp)+

lemma tokenize_open:
  assumes "e \<noteq> CHR ''?''"
  shows "tokenize d Normal (CHR ''('' # e # cs) = map_option ((#) TOpen) (tokenize d Normal (e # cs))"
  using assms by simp

lemma tokenize_space_escape:
  "tokenize d Normal (CHR 0x5C # CHR ''s'' # cs)
     = map_option ((#) (TAtom re_space True)) (tokenize d Normal cs)"
  by (simp add: escape_atom_def syntax_chars_def re_space_def)

lemma parse_atoms_then:
  "parse_tokens (map (\<lambda>c. TAtom (re_chr c) True) s @ ts) ((g, alts, items) # fs) n =
     parse_tokens ts ((g, alts, rev (map (\<lambda>c. (re_chr c, True)) s) @ items) # fs) n"
  by (induction s arbitrary: items) simp_all

lemma block_pattern_tokens:
  "tokenize True Normal (block_pattern s)
     = Some (TOpen # map (\<lambda>c. TAtom (re_chr c) True) ''```javascript''
         @ [TAtom re_space True, TQuant QStar True]
         @ map (\<lambda>c. TAtom (re_chr c) True) s
         @ [TAtom re_space True, TQuant QStar True]
         @ map (\<lambda>c. TAtom (re_chr c) True) ''```'' @ [TClose])"
proof -
  let ?tail = "CHR 0x5C # ''s*```)''"
  have t3: "tokenize True Normal ?tail
      = Some ([TAtom re_space True, TQuant QStar True]
          @ map (\<lambda>c. TAtom (re_chr c) True) ''```'' @ [TClose])"
    by (simp add: escape_atom_def syntax_chars_def re_space_def)
  have head: "case escapeRegExp s @ ?tail of [] \<Rightarrow> True | e # _ \<Rightarrow> e \<noteq> CHR ''?''"
    by (rule escaped_head) simp
  have t1: "tokenize True Normal (CHR ''*'' # escapeRegExp s @ ?tail)
      = Some (TQuant QStar True # map (\<lambda>c. TAtom (re_chr c) True) s
          @ [TAtom re_space True, TQuant QStar True]
          @ map (\<lambda>c. TAtom (re_chr c) True) ''```'' @ [TClose])"
    unfolding tokenize_quantifier(1)[OF head] tokenize_escaped_append t3 by simp
  have "block_pattern s = CHR ''('' # ''```javascript'' @ CHR 0x5C # CHR ''s'' # CHR ''*'' # escapeRegExp s @ ?tail"
    by (simp add: block_pattern_def)
  then show ?thesis
    by (simp del: tokenize.simps
        add: tokenize_open tokenize_plain tokenize_space_escape regexp_specials_def t1)
qed

lemma block_pattern_accepted:
  "new_RegExp (block_pattern s) True
     = Some (Seq (Group 1
         (re_seq (map re_chr ''```javascript'' @ [Star True re_space] @ map re_chr s
            @ [Star True re_space] @ map re_chr ''```''))) Eps)"
  by (simp add: new_RegExp_def block_pattern_tokens parse_atoms_then close_frame_def
      re_alt_def re_seq_def quantify_def rev_map comp_def)

lemma tokenize_class_open:
  assumes "e \<noteq> CHR ''^''"
  shows "tokenize d Normal (CHR ''['' # e # cs) = tokenize d (InClass False [] []) (e # cs)"
  using assms by simp

lemma tokenize_lazy_star:
  "tokenize d Normal (CHR ''*'' # CHR ''?'' # cs)
     = map_option ((#) (TQuant QStar False)) (tokenize d Normal cs)"
  by simp

lemma tokenize_close:
  "tokenize d Normal (CHR '')'' # cs) = map_option ((#) TClose) (tokenize d Normal cs)"
  by simp

lemma markdown_pattern_tokens:
  "tokenize True Normal (markdown_pattern s)
     = Some ([TOpen] @ map (\<lambda>c. TAtom (re_chr c) True) ''---''
         @ [TAtom re_space True, TQuant QStar True,
            TAtom (Alt (Cls False space_chars) (Cls True space_chars)) True, TQuant QStar False,
            TAtom re_space True, TQuant QStar True]
         @ map (\<lambda>c. TAtom (re_chr c) True) ''---''
         @ [TAtom re_space True, TQuant QStar True, TClose, TQuant QOpt True]
         @ map (\<lambda>c. TAtom (re_chr c) True) s)"
proof -
  have head: "case escapeRegExp s @ [] of [] \<Rightarrow> True | e # _ \<Rightarrow> e \<noteq> CHR ''?''"
    by (rule escaped_head) simp
  have t1: "tokenize True Normal (CHR ''?'' # escapeRegExp s)
      = Some (TQuant QOpt True # map (\<lambda>c. TAtom (re_chr c) True) s)"
    using tokenize_quantifier(2)[OF head, of True] by (simp add: tokenize_escapeRegExp)
  show ?thesis
    unfolding markdown_pattern_def
    by (simp del: tokenize.simps(3)
        add: tokenize_open tokenize_plain tokenize_space_escape tokenize_quantifier(1)
          tokenize_class_open tokenize_lazy_star tokenize_close t1 regexp_specials_def
          escape_class_def syntax_chars_def class_token_def re_alt_def space_chars_def
          re_space_def)
qed

lemma markdown_pattern_accepted:
  "new_RegExp (markdown_pattern s) True
     = Some (re_seq
         (Opt True (Group 1
            (re_seq (map re_chr ''---''
               @ [Star True re_space,
                  Star False (Alt (Cls False space_chars) (Cls True space_chars)),
                  Star True re_space]
               @ map re_chr ''---'' @ [Star True re_space])))
          # map re_chr s))"
  by (simp add: new_RegExp_def markdown_pattern_tokens parse_atoms parse_atoms_then
      close_frame_def re_alt_def re_seq_def quantify_def rev_map comp_def)

text \<open>
  C10. For every text \<open>s\<close>, \<open>escapeRegExp s\<close> is a pattern: \<open>new RegExp\<close> accepts it, with or without
  the flag \<open>s\<close>, and the expression it denotes matches at a position exactly when the text there
  starts with \<open>s\<close>, consumes exactly \<open>s\<close>, and captures nothing. So \<open>exec\<close> of that expression on
  any text finds what \<open>indexOf\<close> finds there: the first occurrence of the literal text \<open>s\<close>, and
  no match where \<open>s\<close> does not occur. The two patterns that the repair loop builds around an
  escaped text are accepted for every text as well: the first denotes the opening fence, white
  space, the code as a literal, white space and the closing fence, all in group 1; the second
  an optional group for a frontmatter, followed by the block as a literal.
\<close>

theorem escapeRegExp_matches_literally:
  "\<exists>r. new_RegExp (escapeRegExp s) dotAll = Some r
     \<and> (\<forall>prev rest caps.
          rmatch r (prev, rest, caps) =
            (if startsWith rest s then [(rev s @ prev, drop (length s) rest, caps)] else []))
     \<and> (\<forall>subject.
          regex_exec r subject =
            map_option (\<lambda>i. \<lparr>match_index = i, matched = s, captures = []\<rparr>) (index_of subject s))
     \<and> new_RegExp (block_pattern s) True
         = Some (Seq (Group 1
             (re_seq (map re_chr ''```javascript'' @ [Star True re_space] @ map re_chr s
                @ [Star True re_space] @ map re_chr ''```''))) Eps)
     \<and> new_RegExp (markdown_pattern s) True
         = Some (re_seq
             (Opt True (Group 1
                (re_seq (map re_chr ''---''
                   @ [Star True re_space,
                      Star False (Alt (Cls False space_chars) (Cls True space_chars)),
                      Star True re_space]
                   @ map re_chr ''---'' @ [Star True re_space])))
              # map re_chr s))"
  unfolding block_pattern_accepted markdown_pattern_accepted
  by (simp add: new_RegExp_escapeRegExp rmatch_re_lit regex_exec_def exec_from_re_lit)

theorem escapeRegExp_matches_literally_witness:
  "\<exists>r. new_RegExp (escapeRegExp ''a.c'') True = Some r
     \<and> map_option match_index (regex_exec r ''abc a.c'') = Some 4
     \<and> regex_exec r ''abc'' = None"
proof -
  obtain r where r: "new_RegExp (escapeRegExp ''a.c'') True = Some r"
    and e: "\<And>subject. regex_exec r subject =
      map_option (\<lambda>i. \<lparr>match_index = i, matched = ''a.c'', captures = []\<rparr>) (index_of subject ''a.c'')"
    using escapeRegExp_matches_literally[of "''a.c''" True] by blast
  have "index_of ''abc a.c'' ''a.c'' = Some 4" "index_of ''abc'' ''a.c'' = None"
    by (simp_all add: startsWith_def)
  then show ?thesis
    using r by (simp add: e)
qed

section \<open>Properties of the Repair Loop\<close>

lemma correctedCode_examples:
  "correctedCode_of (''Here:\<newline>```javascript\<newline>fix()\<newline>```'') = ''fix()''
   \<and> correctedCode_of ''  fix()  '' = ''fix()''
   \<and> correctedCode_of '' a() '' = ''a()''"
  by code_simp

lemma heal_example_repaired:
  "attemptSelfHeal (heal_example ''b()'') ''7'' ''a()'' ''Ember Execution Error: a is not defined''
     = \<lparr>new_mes = Some ''---\<newline>---\<newline>\<newline>```javascript\<newline>b()\<newline>```'',
        rerendered = True, alerts = [], button_after = Some False\<rparr>"
  by code_simp

lemma attemptSelfHeal_unchanged:
  assumes "response w = Inr correctedText"
    and "correctedCode_of correctedText = []
           \<or> trim (correctedCode_of correctedText) = trim originalCode"
  shows "attemptSelfHeal w messageId originalCode errorMessage
           = \<lparr>new_mes = chat_mes w, rerendered = False, alerts = [],
              button_after = (if healButton w = Some True then healButton w
                              else map_option (\<lambda>_. False) (healButton w))\<rparr>"
  using assms by (auto simp: attemptSelfHeal_def Let_def)

lemma attemptSelfHeal_changed:
  assumes "new_mes (attemptSelfHeal w messageId originalCode errorMessage) \<noteq> chat_mes w
           \<or> rerendered (attemptSelfHeal w messageId originalCode errorMessage)"
  shows "healButton w \<noteq> Some True
       \<and> (\<exists>correctedText. response w = Inr correctedText
             \<and> correctedCode_of correctedText \<noteq> []
             \<and> trim (correctedCode_of correctedText) \<noteq> trim originalCode)"
proof (cases "response w")
  case (Inl err)
  with assms show ?thesis
    by (auto simp: attemptSelfHeal_def Let_def split: if_splits)
next
  case (Inr correctedText)
  with assms show ?thesis
    by (auto simp: attemptSelfHeal_def Let_def split: if_splits)
qed

text \<open>
  C4. In every invocation of the repair loop in which the code parsed from the answer of the
  repair service is empty or equals the original code after trimming, the persisted source of
  the message is left as it is and the message is not rendered again. The source is changed,
  or the message rendered again, only in an invocation that is not turned away by the busy
  button and whose answer parses to a code that is not empty and differs from the original
  after trimming. The code is parsed from the first \<open>javascript\<close> fence of the answer, or is
  the whole answer when it has none, trimmed. Such an invocation does change the source: the
  block \<open>a()\<close> of the example is replaced by the repair \<open>b()\<close> and the message rendered again.
\<close>

theorem self_heal_leaves_source:
  "(response w = Inr correctedText
      \<and> (correctedCode_of correctedText = []
           \<or> trim (correctedCode_of correctedText) = trim originalCode)
     \<longrightarrow> new_mes (attemptSelfHeal w messageId originalCode errorMessage) = chat_mes w
          \<and> \<not> rerendered (attemptSelfHeal w messageId originalCode errorMessage))
   \<and> (new_mes (attemptSelfHeal w messageId originalCode errorMessage) \<noteq> chat_mes w
        \<or> rerendered (attemptSelfHeal w messageId originalCode errorMessage)
     \<longrightarrow> healButton w \<noteq> Some True
          \<and> (\<exists>answer. response w = Inr answer
                \<and> correctedCode_of answer \<noteq> []
                \<and> trim (correctedCode_of answer) \<noteq> trim originalCode))
   \<and> correctedCode_of (''Here:\<newline>```javascript\<newline>fix()\<newline>```'') = ''fix()''
   \<and> correctedCode_of ''  fix()  '' = ''fix()''
   \<and> attemptSelfHeal (heal_example ''b()'') ''7'' ''a()'' ''Ember Execution Error: a is not defined''
       = \<lparr>new_mes = Some ''---\<newline>---\<newline>\<newline>```javascript\<newline>b()\<newline>```'',
          rerendered = True, alerts = [], button_after = Some False\<rparr>"
  using attemptSelfHeal_unchanged[of w correctedText originalCode messageId errorMessage]
    attemptSelfHeal_changed[of w messageId originalCode errorMessage]
    correctedCode_examples heal_example_repaired
  by simp

theorem self_heal_leaves_source_witness:
  "new_mes (attemptSelfHeal (heal_example '' a() '') ''7'' ''a()''
       ''Ember Execution Error: a is not defined'')
     = Some ''```javascript\<newline>a()\<newline>```''
   \<and> \<not> rerendered (attemptSelfHeal (heal_example '' a() '') ''7'' ''a()''
       ''Ember Execution Error: a is not defined'')"
proof -
  have r: "response (heal_example '' a() '') = Inr '' a() ''"
    and m: "chat_mes (heal_example '' a() '') = Some ''```javascript\<newline>a()\<newline>```''"
    by (simp_all add: heal_example_def)
  have same: "trim (correctedCode_of '' a() '') = trim ''a()''"
    using correctedCode_examples by simp
  from self_heal_leaves_source[of "heal_example '' a() ''" "'' a() ''" "''a()''" "''7''"
      "''Ember Execution Error: a is not defined''"] r same
  show ?thesis
    by (simp add: m)
qed

end
